theory Spec2Isabelle
  imports Main "HOL-Library.Char_ord" "HOL-Library.List_Lexorder" "HOL-Library.FSet"
begin

section \<open>JavaScript values\<close>

text \<open>
  The TypeScript sources test values for truthiness and read properties of plain objects.
  A property read on an object literal that has no own property of that name continues in
  \<open>Object.prototype\<close>, whose members are all truthy (functions, and the prototype
  object itself for \<open>__proto__\<close>). Numbers are taken as integers or NaN; a number that is
  no integer is truthy like a non-zero integer.
\<close>

definition object_prototype_keys :: "string list" where
  "object_prototype_keys =
     [''constructor'', ''__defineGetter__'', ''__defineSetter__'', ''hasOwnProperty'',
      ''__lookupGetter__'', ''__lookupSetter__'', ''isPrototypeOf'',
      ''propertyIsEnumerable'', ''toString'', ''valueOf'', ''__proto__'',
      ''toLocaleString'']"

datatype js_value =
    JUndefined
  | JNull
  | JBool bool
  | JNum int
  | JNaN
  | JStr string
  | JObj "(string \<times> js_value) list"
  | JInherited string

fun truthy :: "js_value \<Rightarrow> bool" where
  "truthy JUndefined = False"
| "truthy JNull = False"
| "truthy (JBool b) = b"
| "truthy (JNum n) = (n \<noteq> 0)"
| "truthy JNaN = False"
| "truthy (JStr s) = (s \<noteq> [])"
| "truthy (JObj ps) = True"
| "truthy (JInherited k) = True"

datatype js_error = TypeError string | Error string

text \<open>
  \<open>v.k\<close>: a TypeError on \<open>undefined\<close> and \<open>null\<close>; on an object the own property,
  else the member inherited from \<open>Object.prototype\<close>, else \<open>undefined\<close>. The keys read
  below (\<open>resource\<close>, \<open>value\<close>, \<open>deleted_at\<close>) are no members of the prototypes of
  strings, numbers or booleans, so a primitive answers like an object without own
  properties.
\<close>

fun get_prop :: "js_value \<Rightarrow> string \<Rightarrow> js_error + js_value" where
  "get_prop JUndefined k = Inl (TypeError k)"
| "get_prop JNull k = Inl (TypeError k)"
| "get_prop (JObj ps) k =
     (case map_of ps k of
        Some v \<Rightarrow> Inr v
      | None \<Rightarrow> if k \<in> set object_prototype_keys then Inr (JInherited k) else Inr JUndefined)"
| "get_prop v k = (if k \<in> set object_prototype_keys then Inr (JInherited k) else Inr JUndefined)"

text \<open>\<open>v?.k\<close>: \<open>undefined\<close> when \<open>v\<close> is \<open>undefined\<close> or \<open>null\<close>, else \<open>v.k\<close>.\<close>

fun get_prop_opt :: "js_value \<Rightarrow> string \<Rightarrow> js_error + js_value" where
  "get_prop_opt JUndefined k = Inr JUndefined"
| "get_prop_opt JNull k = Inr JUndefined"
| "get_prop_opt v k = get_prop v k"

section \<open>The exists check function\<close>

record Output =
  success :: bool
  recommendedActions :: "string list"

text \<open>
  \<open>async function exists(input: Input): Promise<Output>\<close>. The result is \<open>Inl\<close> when
  the promise is rejected.
\<close>

definition exists_check :: "js_value \<Rightarrow> js_error + Output" where
  "exists_check input =
     (case get_prop input ''resource'' of
        Inl e \<Rightarrow> Inl e
      | Inr resource \<Rightarrow>
         (case get_prop_opt resource ''value'' of
            Inl e \<Rightarrow> Inl e
          | Inr v \<Rightarrow>
             if truthy v then
               (case get_prop input ''deleted_at'' of
                  Inl e \<Rightarrow> Inl e
                | Inr d \<Rightarrow>
                   if truthy d
                   then Inr \<lparr>success = False, recommendedActions = [''delete'']\<rparr>
                   else Inr \<lparr>success = True, recommendedActions = []\<rparr>)
             else Inr \<lparr>success = True, recommendedActions = []\<rparr>))"

section \<open>Icon registry\<close>

text \<open>
  An icon asset is an imported module (a component, or the raw text of an SVG file); it
  is named here by the identifier the source imports it under. Every asset is truthy.
\<close>

datatype icon = Asset string

definition ICONS :: "(string \<times> icon) list" where
  "ICONS =
     [(''alert-circle'', Asset ''AlertCircle''), (''alert-square'', Asset ''AlertSquare''),
      (''alert-triangle'', Asset ''AlertTriangle''), (''beaker'', Asset ''Beaker''),
      (''bell'', Asset ''Bell''), (''check'', Asset ''Check''),
      (''check-badge'', Asset ''CheckBadge''), (''check-circle'', Asset ''CheckCircle''),
      (''check-square'', Asset ''CheckSquare''),
      (''clipboard-copy'', Asset ''ClipboardCopy''), (''clock'', Asset ''Clock''),
      (''component'', Asset ''Cube''), (''credit-card'', Asset ''CreditCard''),
      (''diagram'', Asset ''Diagram''), (''dots-horizontal'', Asset ''DotsHorizontal''),
      (''dots-vertical'', Asset ''DotsVertical''), (''edit'', Asset ''Pencil''),
      (''exclamation-circle'', Asset ''ExclamationCircle''),
      (''external-link'', Asset ''ExternalLink''), (''eye'', Asset ''Eye''),
      (''git-branch'', Asset ''GitBranch''), (''git-commit'', Asset ''GitCommit''),
      (''git-merge'', Asset ''GitMerge''), (''help-circle'', Asset ''QuestionMarkCircle''),
      (''hide'', Asset ''EyeOff''), (''link'', Asset ''Link''),
      (''loader'', Asset ''Loader''), (''lock'', Asset ''Lock''),
      (''lock-open'', Asset ''LockOpen''), (''minus'', Asset ''Minus''),
      (''minus-circle'', Asset ''MinusCircle''), (''moon'', Asset ''Moon''),
      (''play'', Asset ''Play''), (''play-circle'', Asset ''PlayCircle''),
      (''plus'', Asset ''Plus''), (''plus-circle'', Asset ''PlusCircle''),
      (''refresh'', Asset ''Refresh''), (''refresh-active'', Asset ''Refresh''),
      (''save'', Asset ''Save''), (''search'', Asset ''Search''),
      (''selector'', Asset ''Selector''), (''show'', Asset ''Eye''),
      (''sun'', Asset ''Sun''), (''tilde'', Asset ''Tilde''),
      (''tilde-circle'', Asset ''TildeCircle''), (''tools'', Asset ''Tools''),
      (''trash'', Asset ''Trash''), (''x'', Asset ''X''),
      (''x-circle'', Asset ''XCircle''), (''x-square'', Asset ''XSquare'')]"

definition SPINNABLE_ICONS :: "(string \<times> icon) list" where
  "SPINNABLE_ICONS = [(''arrow'', Asset ''Arrow''), (''chevron'', Asset ''Chevron'')]"

definition ICON_NAME_ALIASES :: "(string \<times> string) list" where
  "ICON_NAME_ALIASES = []"

text \<open>
  What a property read on one of the three tables gives: the own entry, a member
  inherited from \<open>Object.prototype\<close>, or \<open>undefined\<close>.
\<close>

datatype 'a looked_up = Own 'a | Inherited string | Undefined

definition table_get :: "(string \<times> 'a) list \<Rightarrow> string \<Rightarrow> 'a looked_up" where
  "table_get tbl k =
     (case map_of tbl k of
        Some v \<Rightarrow> Own v
      | None \<Rightarrow> if k \<in> set object_prototype_keys then Inherited k else Undefined)"

fun truthy_looked_up :: "'a looked_up \<Rightarrow> bool" where
  "truthy_looked_up (Own v) = True"
| "truthy_looked_up (Inherited k) = True"
| "truthy_looked_up Undefined = False"

text \<open>\<open>a || b\<close>, with \<open>b\<close> evaluated only when \<open>a\<close> is falsy.\<close>

definition js_or :: "'a looked_up \<Rightarrow> 'a looked_up \<Rightarrow> 'a looked_up" where
  "js_or a b = (if truthy_looked_up a then a else b)"

text \<open>
  A value used as a property key is converted to a string: \<open>undefined\<close> gives the key
  \<open>undefined\<close>, an inherited function gives its program text.
\<close>

fun to_property_key :: "string looked_up \<Rightarrow> string" where
  "to_property_key (Own a) = a"
| "to_property_key (Inherited k) = ''function '' @ k @ ''() { [native code] }''"
| "to_property_key Undefined = ''undefined''"

text \<open>\<open>name.split("--")[0]\<close>: the part of the name before the first \<open>--\<close>.\<close>

fun nameWithoutModifiers :: "string \<Rightarrow> string" where
  "nameWithoutModifiers (a # b # cs) =
     (if a = CHR ''-'' \<and> b = CHR ''-'' then [] else a # nameWithoutModifiers (b # cs))"
| "nameWithoutModifiers cs = cs"

definition getIconByName :: "string \<Rightarrow> icon looked_up" where
  "getIconByName name =
     (let n = nameWithoutModifiers name in
      js_or (table_get SPINNABLE_ICONS n)
        (js_or (table_get ICONS n)
           (js_or (table_get ICONS (to_property_key (table_get ICON_NAME_ALIASES n)))
              (table_get ICONS ''help-circle''))))"

section \<open>Shared model types of the web application\<close>

text \<open>
  The model classes (\<open>ChangeSet\<close>, \<open>EditSession\<close>, \<open>InstanceStoreContext\<close>, the DAL
  reply types) are declared outside the files at hand; they are taken with the fields and
  methods the stores use. A method without arguments is a field holding its result.
\<close>

datatype ChangeSetStatus = Open | OtherStatus string

record ChangeSet =
  cs_id :: string
  cs_name :: string
  cs_status :: ChangeSetStatus

record EditSession =
  es_id :: string
  es_name :: string
  es_changeSetId :: string

record InstanceStoreContext =
  storeName :: string
  instanceId :: string
  activateName :: string
  dispatchPath :: "string option \<Rightarrow> string"

text \<open>A field of type \<open>T | null | undefined\<close>.\<close>

datatype 'a nullable = Undef | Null | Def 'a

fun truthy_nullable :: "'a nullable \<Rightarrow> bool" where
  "truthy_nullable (Def x) = True"
| "truthy_nullable Null = False"
| "truthy_nullable Undef = False"

section \<open>Application context store\<close>

text \<open>
  An entry of a drop-down list is an object \<open>{ value, label }\<close>. lodash's \<open>union\<close>
  compares objects by reference, so an entry carries its identity \<open>oid\<close>.
\<close>

record list_entry =
  oid :: nat
  entry_value :: string
  entry_label :: string

record ApplicationContextStore =
  applicationId :: "string option"
  activatedBy :: "string fset"
  applicationName :: "string option"
  systemsList :: "list_entry list"
  currentSystem :: "string option"
  openChangeSetsList :: "list_entry list"
  currentChangeSet :: "ChangeSet option"
  currentEditSession :: "EditSession option"
  statusBarCtx :: "InstanceStoreContext nullable"
  editMode :: bool

definition state_init :: ApplicationContextStore where
  "state_init =
     \<lparr>applicationId = None, activatedBy = {||}, applicationName = None, systemsList = [],
      currentSystem = None, openChangeSetsList = [], currentChangeSet = None,
      currentEditSession = None, statusBarCtx = Null, editMode = False\<rparr>"

subsection \<open>DAL replies\<close>

record SDFError =
  err_code :: int
  err_message :: string

text \<open>
  A reply is either the success payload or an object with an \<open>error\<close> property; the
  actions test \<open>reply.error\<close>, which is an object, hence truthy, exactly in the second
  case.
\<close>

datatype 'a reply = ReplyError SDFError | ReplySuccess 'a

record IGetApplicationContextReplySuccess =
  reply_applicationName :: string
  reply_systemsList :: "list_entry list"
  reply_openChangeSetsList :: "list_entry list"

record ChangeSetAndEditSession =
  reply_changeSet :: ChangeSet
  reply_editSession :: EditSession

record IEditSessionReplySuccess =
  only_editSession :: EditSession

subsection \<open>Mutations\<close>

definition setCurrentChangeSetAndEditSession ::
  "ApplicationContextStore \<Rightarrow> ChangeSet option \<Rightarrow> EditSession option \<Rightarrow> ApplicationContextStore" where
  "setCurrentChangeSetAndEditSession s cs es = s\<lparr>currentChangeSet := cs, currentEditSession := es\<rparr>"

definition setCurrentChangeSet :: "ApplicationContextStore \<Rightarrow> ChangeSet option \<Rightarrow> ApplicationContextStore" where
  "setCurrentChangeSet s payload = s\<lparr>currentChangeSet := payload\<rparr>"

definition setCurrentEditSession :: "ApplicationContextStore \<Rightarrow> EditSession option \<Rightarrow> ApplicationContextStore" where
  "setCurrentEditSession s payload = s\<lparr>currentEditSession := payload\<rparr>"

text \<open>
  \<open>_.union(a, b)\<close>: the entries of \<open>a\<close> then those of \<open>b\<close>, each object once, the first
  occurrence kept; two entries are the same when they are the same object.
\<close>

fun uniq_by_seen :: "('a \<Rightarrow> 'k) \<Rightarrow> 'k list \<Rightarrow> 'a list \<Rightarrow> 'a list" where
  "uniq_by_seen f seen [] = []"
| "uniq_by_seen f seen (x # xs) =
     (if f x \<in> set seen then uniq_by_seen f seen xs
      else x # uniq_by_seen f (f x # seen) xs)"

definition union_ref :: "list_entry list \<Rightarrow> list_entry list \<Rightarrow> list_entry list" where
  "union_ref a b = uniq_by_seen oid [] (a @ b)"

definition updateOpenChangeSetsList :: "ApplicationContextStore \<Rightarrow> list_entry list \<Rightarrow> ApplicationContextStore" where
  "updateOpenChangeSetsList s payload =
     s\<lparr>openChangeSetsList := union_ref payload (openChangeSetsList s)\<rparr>"

text \<open>
  \<open>setApplicationContext\<close> stores the payload's own array in the state and then pushes
  the empty entry onto it: the payload held by the caller grows as well, so the mutation
  returns the payload too. \<open>fresh\<close> is the identity of the object literal pushed.
\<close>

definition setApplicationContext ::
  "nat \<Rightarrow> ApplicationContextStore \<Rightarrow> IGetApplicationContextReplySuccess
     \<Rightarrow> ApplicationContextStore \<times> IGetApplicationContextReplySuccess" where
  "setApplicationContext fresh s payload =
     (let pushed = reply_openChangeSetsList payload
                     @ [\<lparr>oid = fresh, entry_value = [], entry_label = []\<rparr>]
      in (s\<lparr>applicationName := Some (reply_applicationName payload),
             systemsList := reply_systemsList payload,
             openChangeSetsList := pushed\<rparr>,
          payload\<lparr>reply_openChangeSetsList := pushed\<rparr>))"

definition setEditMode_mutation :: "ApplicationContextStore \<Rightarrow> bool \<Rightarrow> ApplicationContextStore" where
  "setEditMode_mutation s payload = s\<lparr>editMode := payload\<rparr>"

definition addToActivatedBy :: "ApplicationContextStore \<Rightarrow> string \<Rightarrow> ApplicationContextStore" where
  "addToActivatedBy s payload = s\<lparr>activatedBy := finsert payload (activatedBy s)\<rparr>"

definition removeFromActivatedBy :: "ApplicationContextStore \<Rightarrow> string \<Rightarrow> ApplicationContextStore" where
  "removeFromActivatedBy s payload = s\<lparr>activatedBy := activatedBy s |-| {|payload|}\<rparr>"

definition clearCurrentChangeSetAndCurrentEditSession_mutation ::
  "ApplicationContextStore \<Rightarrow> ApplicationContextStore" where
  "clearCurrentChangeSetAndCurrentEditSession_mutation s =
     s\<lparr>currentChangeSet := None, currentEditSession := None\<rparr>"

definition clear :: "ApplicationContextStore \<Rightarrow> ApplicationContextStore" where
  "clear s =
     s\<lparr>applicationId := None, applicationName := None, systemsList := [],
       currentSystem := None, openChangeSetsList := [], currentChangeSet := None,
       statusBarCtx := Undef\<rparr>"

definition setStatusBarCtx_mutation ::
  "ApplicationContextStore \<Rightarrow> InstanceStoreContext nullable \<Rightarrow> ApplicationContextStore" where
  "setStatusBarCtx_mutation s payload = s\<lparr>statusBarCtx := payload\<rparr>"

subsection \<open>Actions\<close>

text \<open>
  What an action does beyond committing mutations: dispatches into other store modules,
  events published on the party bus, registrations with the update tracker. An action
  returns the new state and the effects in the order they happen; an action that calls
  the DAL takes the reply the DAL gave and also returns the reply it hands to its caller.
\<close>

datatype payload = PBool bool | PString string

datatype effect =
    Dispatch string payload
  | PublishCurrentChangeSet "ChangeSet option"
  | RegisterUpdateTracker string string

definition activate :: "ApplicationContextStore \<Rightarrow> InstanceStoreContext \<Rightarrow> ApplicationContextStore \<times> effect list" where
  "activate s payload =
     (addToActivatedBy s (activateName payload),
      [RegisterUpdateTracker ''Entity'' (dispatchPath payload None)])"

definition deactivate :: "ApplicationContextStore \<Rightarrow> InstanceStoreContext \<Rightarrow> ApplicationContextStore" where
  "deactivate s payload =
     (let s1 = removeFromActivatedBy s (activateName payload)
      in if fcard (activatedBy s1) = 0 then clear s1 else s1)"

definition setStatusBarCtx :: "ApplicationContextStore \<Rightarrow> InstanceStoreContext \<Rightarrow> ApplicationContextStore" where
  "setStatusBarCtx s payload = setStatusBarCtx_mutation s (Def payload)"

definition setEditMode :: "ApplicationContextStore \<Rightarrow> bool \<Rightarrow> ApplicationContextStore \<times> effect list" where
  "setEditMode s payload =
     (let s1 = setEditMode_mutation s payload
      in (s1, case statusBarCtx s1 of
                Def ctx \<Rightarrow> [Dispatch (dispatchPath ctx (Some ''setEditMode'')) (PBool payload)]
              | _ \<Rightarrow> []))"

definition loadApplicationContext ::
  "nat \<Rightarrow> ApplicationContextStore \<Rightarrow> IGetApplicationContextReplySuccess reply
     \<Rightarrow> ApplicationContextStore \<times> effect list \<times> IGetApplicationContextReplySuccess reply" where
  "loadApplicationContext fresh s reply =
     (case reply of
        ReplyError e \<Rightarrow> (s, [], reply)
      | ReplySuccess p \<Rightarrow>
          (case setApplicationContext fresh s p of
             (s1, p1) \<Rightarrow>
               (s1,
                (case statusBarCtx s1 of
                   Def ctx \<Rightarrow> [Dispatch (dispatchPath ctx (Some ''setApplicationName''))
                                 (PString (reply_applicationName p1))]
                 | _ \<Rightarrow> []),
                ReplySuccess p1)))"

definition loadChangeSetAndEditSession ::
  "ApplicationContextStore \<Rightarrow> ChangeSetAndEditSession reply
     \<Rightarrow> ApplicationContextStore \<times> effect list \<times> ChangeSetAndEditSession reply" where
  "loadChangeSetAndEditSession s reply =
     (case reply of
        ReplyError e \<Rightarrow> (s, [], reply)
      | ReplySuccess p \<Rightarrow>
          (setCurrentChangeSetAndEditSession s (Some (reply_changeSet p)) (Some (reply_editSession p)),
           [PublishCurrentChangeSet (Some (reply_changeSet p))],
           reply))"

definition createEditSessionAndLoadChangeSet ::
  "ApplicationContextStore \<Rightarrow> ChangeSetAndEditSession reply
     \<Rightarrow> ApplicationContextStore \<times> effect list \<times> ChangeSetAndEditSession reply" where
  "createEditSessionAndLoadChangeSet s reply =
     (case reply of
        ReplyError e \<Rightarrow> (s, [], reply)
      | ReplySuccess p \<Rightarrow>
          (setCurrentChangeSetAndEditSession s (Some (reply_changeSet p)) (Some (reply_editSession p)),
           [PublishCurrentChangeSet (Some (reply_changeSet p))],
           reply))"

definition clearCurrentChangeSetAndCurrentEditSession ::
  "ApplicationContextStore \<Rightarrow> ApplicationContextStore \<times> effect list" where
  "clearCurrentChangeSetAndCurrentEditSession s =
     (let s1 = clearCurrentChangeSetAndCurrentEditSession_mutation s
      in (s1, if truthy_nullable (statusBarCtx s1) then [PublishCurrentChangeSet None] else []))"

definition createChangeSetAndEditSession ::
  "nat \<Rightarrow> ApplicationContextStore \<Rightarrow> ChangeSetAndEditSession reply
     \<Rightarrow> ApplicationContextStore \<times> effect list \<times> ChangeSetAndEditSession reply" where
  "createChangeSetAndEditSession fresh s reply =
     (case reply of
        ReplyError e \<Rightarrow> (s, [], reply)
      | ReplySuccess p \<Rightarrow>
          (let s1 = updateOpenChangeSetsList s
                      [\<lparr>oid = fresh, entry_value = cs_id (reply_changeSet p),
                        entry_label = cs_name (reply_changeSet p)\<rparr>];
               s2 = setCurrentChangeSet s1 (Some (reply_changeSet p));
               effs = (if truthy_nullable (statusBarCtx s2)
                       then [PublishCurrentChangeSet (Some (reply_changeSet p))] else []);
               s3 = setCurrentEditSession s2 (Some (reply_editSession p))
           in (s3, effs, reply)))"

definition createEditSession ::
  "ApplicationContextStore \<Rightarrow> IEditSessionReplySuccess reply
     \<Rightarrow> ApplicationContextStore \<times> effect list \<times> IEditSessionReplySuccess reply" where
  "createEditSession s reply =
     (case reply of
        ReplyError e \<Rightarrow> (s, [], reply)
      | ReplySuccess p \<Rightarrow> (setCurrentEditSession s (Some (only_editSession p)), [], reply))"

definition cancelEditSession ::
  "ApplicationContextStore \<Rightarrow> 'a reply \<Rightarrow> ApplicationContextStore \<times> effect list \<times> 'a reply" where
  "cancelEditSession s reply =
     (case reply of
        ReplyError e \<Rightarrow> (s, [], reply)
      | ReplySuccess p \<Rightarrow> (setCurrentEditSession s None, [], reply))"

section \<open>Editor store\<close>

subsection \<open>Model objects\<close>

record Entity =
  ent_id :: string
  ent_nodeId :: string
  ent_head :: bool
  ent_changeSetId :: string
  ent_typeName :: string
  ent_deleted :: bool

record System =
  sys_id :: string
  sys_name :: string

record Node =
  node_id :: string
  node_objectType :: string

record Edge =
  edge_id :: string
  tailVertex_nodeId :: string
  headVertex_nodeId :: string

record Resource =
  res_id :: string
  res_nodeId :: string
  res_systemId :: string

record Event =
  ev_id :: string
  ev_message :: string
  startUnixTimestamp :: int

record EventLog =
  log_id :: string
  unixTimestamp :: int

record RegistryProperty =
  prop_name :: string
  prop_kind :: string

record DiffResult =
  diff_entries :: "string list"
  diff_count :: nat

record EventBarItem =
  item_id :: string
  item_event :: Event
  item_logs :: "EventLog list"
  item_output :: "(string \<times> string) list"

datatype Mode = View | Edit

record EditorStore =
  mode :: Mode
  editor_context :: string
  mouseTrackSelection :: "string option"
  isSaving :: bool
  editSaveError :: "js_error option"
  changeSetsOpen :: "ChangeSet list"
  changeSet :: "ChangeSet option"
  changeSetParticipantCount :: nat
  editSession :: "EditSession option"
  application :: "Entity option"
  system :: "System option"
  systems :: "System list"
  nodes :: "Node list"
  objects :: "string \<rightharpoonup> Entity"
  edges :: "Edge list"
  node :: "Node option"
  directSuccessors :: "Node list"
  newConfiguresInputTypes :: "(string option \<times> string) list"
  propertyList :: "RegistryProperty list"
  secretList :: "string list option"
  secretName :: "string option"
  editObject :: "Entity option"
  diff :: DiffResult
  eventBar :: "EventBarItem list"
  resources :: "Resource list"
  currentResource :: "Resource option"

definition editor_state :: EditorStore where
  "editor_state =
     \<lparr>mode = View, editor_context = ''none'', mouseTrackSelection = None, isSaving = False,
      editSaveError = None, changeSetsOpen = [], changeSet = None,
      changeSetParticipantCount = 0, editSession = None, application = None,
      system = None, systems = [], nodes = [], objects = Map.empty, edges = [],
      node = None, directSuccessors = [], newConfiguresInputTypes = [],
      propertyList = [], secretList = None, secretName = None, editObject = None,
      diff = \<lparr>diff_entries = [], diff_count = 0\<rparr>, eventBar = [], resources = [],
      currentResource = None\<rparr>"

subsection \<open>lodash\<close>

text \<open>
  \<open>_.unionBy(a, b, "id")\<close>: the elements of \<open>a\<close> then those of \<open>b\<close>, one element per
  value of the property, the first occurrence kept.
\<close>

definition unionBy :: "'a list \<Rightarrow> 'a list \<Rightarrow> ('a \<Rightarrow> 'k) \<Rightarrow> 'a list" where
  "unionBy a b f = uniq_by_seen f [] (a @ b)"

text \<open>
  \<open>_.orderBy\<close> is a stable sort: elements with equal keys keep their order. Each
  element in turn is put behind every element already placed that it must not precede.
\<close>

fun insert_by :: "('a \<Rightarrow> 'a \<Rightarrow> bool) \<Rightarrow> 'a \<Rightarrow> 'a list \<Rightarrow> 'a list" where
  "insert_by before x [] = [x]"
| "insert_by before x (y # ys) =
     (if before x y then x # y # ys else y # insert_by before x ys)"

definition orderBy_asc :: "('a \<Rightarrow> 'k::linorder) \<Rightarrow> 'a list \<Rightarrow> 'a list" where
  "orderBy_asc f xs = fold (insert_by (\<lambda>x y. f x < f y)) xs []"

definition orderBy_desc :: "('a \<Rightarrow> 'k::linorder) \<Rightarrow> 'a list \<Rightarrow> 'a list" where
  "orderBy_desc f xs = fold (insert_by (\<lambda>x y. f x > f y)) xs []"

subsection \<open>Mutations\<close>

text \<open>
  Some mutations also replace the query of the current route; the key and the value
  written are recorded. So are the requests an action sends to the backend that create
  something or that the action is still waiting for when its caller goes on.
\<close>

record EditSessionCreateRequest =
  req_name :: string
  req_workspaceId :: string
  req_organizationId :: string

datatype editor_effect =
    RouterReplace string "string option"
  | Call_EditSession_create string EditSessionCreateRequest
  | Started_ChangeSet_get string
  | Started_Node_get string

text \<open>
  \<open>_.orderBy(logs, ["unixTimestamp", "asc"])\<close> passes two property names and no
  orders: ascending by \<open>unixTimestamp\<close>, then by the property \<open>asc\<close>, which no log has.
\<close>

definition updateEventBar :: "EditorStore \<Rightarrow> Event \<Rightarrow> EventLog list \<Rightarrow> EditorStore" where
  "updateEventBar s event logs =
     s\<lparr>eventBar :=
         take 60
           (orderBy_desc (\<lambda>i. startUnixTimestamp (item_event i))
              (unionBy
                 [\<lparr>item_id = ev_id event, item_event = event,
                   item_logs = orderBy_asc unixTimestamp logs, item_output = []\<rparr>]
                 (eventBar s) item_id))\<rparr>"

definition updateObjects :: "EditorStore \<Rightarrow> Entity \<Rightarrow> EditorStore" where
  "updateObjects s payload = s\<lparr>objects := (objects s)(ent_nodeId payload \<mapsto> payload)\<rparr>"

definition updateResources :: "EditorStore \<Rightarrow> Resource \<Rightarrow> EditorStore" where
  "updateResources s payload =
     s\<lparr>resources := orderBy_desc res_id (unionBy [payload] (resources s) res_id)\<rparr>"

definition setResources :: "EditorStore \<Rightarrow> Resource list \<Rightarrow> EditorStore" where
  "setResources s payload = s\<lparr>resources := payload\<rparr>"

definition node_mutation :: "EditorStore \<Rightarrow> Node option \<Rightarrow> EditorStore \<times> editor_effect list" where
  "node_mutation s payload =
     (s\<lparr>node := payload\<rparr>, [RouterReplace ''nodeId'' (map_option node_id payload)])"

definition updateNodes :: "EditorStore \<Rightarrow> Node \<Rightarrow> EditorStore" where
  "updateNodes s payload = s\<lparr>nodes := unionBy [payload] (nodes s) node_id\<rparr>"

definition setNodes :: "EditorStore \<Rightarrow> Node list \<Rightarrow> EditorStore" where
  "setNodes s payload = s\<lparr>nodes := payload\<rparr>"

definition changeSetsOpenAdd :: "EditorStore \<Rightarrow> ChangeSet \<Rightarrow> EditorStore" where
  "changeSetsOpenAdd s payload =
     s\<lparr>changeSetsOpen := unionBy [payload] (changeSetsOpen s) cs_id\<rparr>"

text \<open>\<open>_.remove(array, ["id", payload.id])\<close> takes out every element with that id.\<close>

definition changeSetsOpenRemove :: "EditorStore \<Rightarrow> ChangeSet \<Rightarrow> EditorStore" where
  "changeSetsOpenRemove s payload =
     s\<lparr>changeSetsOpen := filter (\<lambda>c. cs_id c \<noteq> cs_id payload) (changeSetsOpen s)\<rparr>"

definition changeSetParticipantCount_mutation :: "EditorStore \<Rightarrow> nat \<Rightarrow> EditorStore" where
  "changeSetParticipantCount_mutation s payload = s\<lparr>changeSetParticipantCount := payload\<rparr>"

definition changeSet_mutation :: "EditorStore \<Rightarrow> ChangeSet option \<Rightarrow> EditorStore \<times> editor_effect list" where
  "changeSet_mutation s payload =
     (s\<lparr>changeSet := payload\<rparr>, [RouterReplace ''changeSetId'' (map_option cs_id payload)])"

definition editSession_mutation :: "EditorStore \<Rightarrow> EditSession option \<Rightarrow> EditorStore \<times> editor_effect list" where
  "editSession_mutation s payload =
     (s\<lparr>editSession := payload\<rparr>, [RouterReplace ''editSessionId'' (map_option es_id payload)])"

subsection \<open>Actions\<close>

text \<open>
  The backend calls an action awaits are parameters: each gives the value the promise
  resolves to, or the error it is rejected with. An action returns the new state, the
  effects in order, and \<open>Inl\<close> the error when it throws (its promise is rejected).
\<close>

record Workspace =
  ws_id :: string

record Organization =
  org_id :: string

record User =
  user_name :: string

record RootGetters =
  workspace_current :: "Workspace option"
  organization_current :: "Organization option"
  user_current :: "User option"

record Backend =
  EditSession_create :: "string \<Rightarrow> EditSessionCreateRequest \<Rightarrow> js_error + EditSession"
  Entity_node :: "Entity \<Rightarrow> js_error + Node"
  Node_successors :: "Node \<Rightarrow> js_error + Node list"
  Resource_getByEntityIdAndSystemId :: "string \<Rightarrow> string \<Rightarrow> js_error + Resource"

text \<open>
  \<open>editSessionCreate\<close>; \<open>now\<close> is \<open>new Date().toISOString()\<close>. Reading a property of
  a getter result that is \<open>undefined\<close> throws a TypeError.
\<close>

definition editSessionCreate ::
  "Backend \<Rightarrow> string \<Rightarrow> RootGetters \<Rightarrow> EditorStore
     \<Rightarrow> EditorStore \<times> editor_effect list \<times> (js_error + unit)" where
  "editSessionCreate backend now rootGetters s =
     (case changeSet s of
        None \<Rightarrow> (s, [], Inl (Error ''cannot start an edit session without a change set!''))
      | Some cs \<Rightarrow>
         (case user_current rootGetters of
            None \<Rightarrow> (s, [], Inl (TypeError ''name''))
          | Some user \<Rightarrow>
             (case workspace_current rootGetters of
                None \<Rightarrow> (s, [], Inl (TypeError ''id''))
              | Some workspace \<Rightarrow>
                 (case organization_current rootGetters of
                    None \<Rightarrow> (s, [], Inl (TypeError ''id''))
                  | Some organization \<Rightarrow>
                     (let req = \<lparr>req_name = user_name user @ '' '' @ now,
                                 req_workspaceId = ws_id workspace,
                                 req_organizationId = org_id organization\<rparr>
                      in case EditSession_create backend (cs_id cs) req of
                           Inl e \<Rightarrow> (s, [Call_EditSession_create (cs_id cs) req], Inl e)
                         | Inr es \<Rightarrow>
                             (case editSession_mutation s (Some es) of
                                (s1, effs) \<Rightarrow>
                                  (s1, Call_EditSession_create (cs_id cs) req # effs,
                                   Inr ())))))))"

text \<open>\<open>_.find(successors, ["id", id])\<close>: the first element with that id, if any.\<close>

definition find_by_id :: "Node list \<Rightarrow> string \<Rightarrow> Node option" where
  "find_by_id ns i = find (\<lambda>n. node_id n = i) ns"

definition fromNode ::
  "Backend \<Rightarrow> EditorStore \<Rightarrow> Node \<Rightarrow> EditorStore \<times> editor_effect list \<times> (js_error + unit)" where
  "fromNode backend s payload =
     (case application s of
        None \<Rightarrow> (s, [], Inr ())
      | Some app \<Rightarrow>
         (case Entity_node backend app of
            Inl e \<Rightarrow> (s, [], Inl e)
          | Inr appNode \<Rightarrow>
             (case Node_successors backend appNode of
                Inl e \<Rightarrow> (s, [], Inl e)
              | Inr successors \<Rightarrow>
                 (case find_by_id successors (node_id payload) of
                    None \<Rightarrow> (s, [], Inr ())
                  | Some found \<Rightarrow>
                     (let s1 = updateNodes s payload
                      in case (if map_option node_id (node s1) = Some (node_id payload)
                               then node_mutation s1 (Some payload) else (s1, [])) of
                           (s2, effs) \<Rightarrow>
                             (case system s2 of
                                None \<Rightarrow> (s2, effs, Inr ())
                              | Some sys \<Rightarrow>
                                 (case Resource_getByEntityIdAndSystemId backend
                                         (node_id payload) (sys_id sys) of
                                    Inl e \<Rightarrow> (s2, effs, Inl e)
                                  | Inr resource \<Rightarrow>
                                      (updateResources s2 resource, effs, Inr ()))))))))"

text \<open>An id of type \<open>string | undefined\<close> under \<open>if (payload.id)\<close>: the empty string is falsy.\<close>

definition truthy_id :: "string option \<Rightarrow> string option" where
  "truthy_id i = (case i of None \<Rightarrow> None | Some x \<Rightarrow> if x = [] then None else Some x)"

text \<open>
  \<open>dispatch("setChangeSet", payload)\<close> without \<open>await\<close> runs \<open>setChangeSet\<close> up to its
  first \<open>await\<close> and then returns to the caller; the rest of \<open>setChangeSet\<close> runs after
  the caller has finished. \<open>setChangeSet_start\<close> is that first part: with a truthy id
  only the request for the change set is sent; otherwise the current change set and the
  participant count are reset and, when an application is selected, the request for its
  node is sent.
\<close>

definition setChangeSet_start :: "EditorStore \<Rightarrow> string option \<Rightarrow> EditorStore \<times> editor_effect list" where
  "setChangeSet_start s payload_id =
     (case truthy_id payload_id of
        Some i \<Rightarrow> (s, [Started_ChangeSet_get i])
      | None \<Rightarrow>
         (case changeSet_mutation s None of
            (s1, effs) \<Rightarrow>
              (let s2 = changeSetParticipantCount_mutation s1 0
               in (s2, effs @ (case application s2 of
                                 None \<Rightarrow> []
                               | Some app \<Rightarrow> [Started_Node_get (ent_nodeId app)])))))"

definition fromChangeSet :: "EditorStore \<Rightarrow> ChangeSet \<Rightarrow> EditorStore \<times> editor_effect list" where
  "fromChangeSet s payload =
     (if cs_status payload = Open then (changeSetsOpenAdd s payload, [])
      else (case (if map_option cs_id (changeSet s) = Some (cs_id payload)
                  then setChangeSet_start s None else (s, [])) of
              (s1, effs) \<Rightarrow> (changeSetsOpenRemove s1 payload, effs)))"

text \<open>
  \<open>fromEvent\<close> commits \<open>updateEventBar\<close> with the event and the logs the backend lists
  for it; a run of the store over pushed events applies the mutation once per event.
\<close>

definition updateEventBar_all :: "(Event \<times> EventLog list) list \<Rightarrow> EditorStore \<Rightarrow> EditorStore" where
  "updateEventBar_all pushed s = fold (\<lambda>(event, logs) s'. updateEventBar s' event logs) pushed s"

section \<open>The external_providers table and its create procedure\<close>

datatype json =
    JsonNull
  | JsonBool bool
  | JsonNumber int
  | JsonString string
  | JsonArray "json list"
  | JsonObject "(string \<times> json) list"

text \<open>
  A column or variable that can be NULL is an \<open>option\<close>. A \<open>timestamp with time zone\<close> is
  identified with its text. The composite types \<open>tenancy_record_v1\<close> and
  \<open>visibility_record_v1\<close> are declared by an earlier migration; they have the fields the
  procedure reads, and a field of a composite type can always be NULL.
\<close>

type_synonym bigint = int
type_synonym timestamptz = string

record tenancy_record_v1 =
  tenancy_universal :: "bool option"
  tenancy_billing_account_ids :: "bigint list option"
  tenancy_organization_ids :: "bigint list option"
  tenancy_workspace_ids :: "bigint list option"

record visibility_record_v1 =
  visibility_change_set_pk :: "bigint option"
  visibility_edit_session_pk :: "bigint option"
  visibility_deleted_at :: "timestamptz option"

text \<open>A row of \<open>external_providers\<close>, one field per column, in the order of the table.\<close>

record external_providers_row =
  col_pk :: bigint
  col_id :: bigint
  col_tenancy_universal :: bool
  col_tenancy_billing_account_ids :: "bigint list option"
  col_tenancy_organization_ids :: "bigint list option"
  col_tenancy_workspace_ids :: "bigint list option"
  col_visibility_change_set_pk :: "bigint option"
  col_visibility_edit_session_pk :: "bigint option"
  col_visibility_deleted_at :: "timestamptz option"
  col_attribute_context_prop_id :: "bigint option"
  col_attribute_context_schema_id :: "bigint option"
  col_attribute_context_schema_variant_id :: "bigint option"
  col_attribute_context_component_id :: "bigint option"
  col_attribute_context_system_id :: "bigint option"
  col_created_at :: timestamptz
  col_updated_at :: timestamptz
  col_prop_id :: "bigint option"
  col_schema_id :: "bigint option"
  col_schema_variant_id :: "bigint option"
  col_name :: "string option"
  col_type_definition :: "string option"
  col_attribute_prototype_id :: "bigint option"

record standard_models_row =
  table_name :: string
  table_type :: string
  history_event_label_base :: string
  history_event_message_name :: string

text \<open>
  The database: the two tables the migration writes to, and the last values of the two
  sequences behind the \<open>bigserial\<close> columns.
\<close>

record database =
  external_providers :: "external_providers_row list"
  standard_models :: "standard_models_row list"
  external_providers_pk_seq :: bigint
  external_providers_id_seq :: bigint

datatype sql_error =
    invalid_input string
  | sequence_limit string
  | not_null_violation string
  | unique_violation string
  | constraint_violation string

text \<open>
  What the procedure calls or relies on and the migration does not define: the two
  conversions from json (which may raise), the constraints that
  \<open>standard_model_table_constraints_v1\<close> puts on the table (do the rows present accept
  the new row?), and the time \<open>NOW()\<close> gives.
\<close>

record environment =
  tenancy_json_to_columns_v1 :: "json option \<Rightarrow> sql_error + tenancy_record_v1"
  visibility_json_to_columns_v1 :: "json option \<Rightarrow> sql_error + visibility_record_v1"
  standard_model_table_constraints_v1 :: "external_providers_row list \<Rightarrow> external_providers_row \<Rightarrow> bool"
  NOW :: timestamptz

definition bigint_max :: int where
  "bigint_max = 9223372036854775807"

text \<open>\<open>nextval\<close>: the next value, or an error at the end of the sequence.\<close>

definition nextval :: "string \<Rightarrow> bigint \<Rightarrow> sql_error + bigint" where
  "nextval seq_name last_value =
     (if last_value \<ge> bigint_max then Inl (sequence_limit seq_name) else Inr (last_value + 1))"

definition json_of_bigint :: "bigint option \<Rightarrow> json" where
  "json_of_bigint v = (case v of None \<Rightarrow> JsonNull | Some n \<Rightarrow> JsonNumber n)"

definition json_of_bigints :: "bigint list option \<Rightarrow> json" where
  "json_of_bigints v = (case v of None \<Rightarrow> JsonNull | Some ns \<Rightarrow> JsonArray (map JsonNumber ns))"

definition json_of_text :: "string option \<Rightarrow> json" where
  "json_of_text v = (case v of None \<Rightarrow> JsonNull | Some t \<Rightarrow> JsonString t)"

text \<open>\<open>row_to_json\<close>: an object with one member per column, named as the column.\<close>

definition row_to_json :: "external_providers_row \<Rightarrow> json" where
  "row_to_json r =
     JsonObject
       [(''pk'', JsonNumber (col_pk r)),
        (''id'', JsonNumber (col_id r)),
        (''tenancy_universal'', JsonBool (col_tenancy_universal r)),
        (''tenancy_billing_account_ids'', json_of_bigints (col_tenancy_billing_account_ids r)),
        (''tenancy_organization_ids'', json_of_bigints (col_tenancy_organization_ids r)),
        (''tenancy_workspace_ids'', json_of_bigints (col_tenancy_workspace_ids r)),
        (''visibility_change_set_pk'', json_of_bigint (col_visibility_change_set_pk r)),
        (''visibility_edit_session_pk'', json_of_bigint (col_visibility_edit_session_pk r)),
        (''visibility_deleted_at'', json_of_text (col_visibility_deleted_at r)),
        (''attribute_context_prop_id'', json_of_bigint (col_attribute_context_prop_id r)),
        (''attribute_context_schema_id'', json_of_bigint (col_attribute_context_schema_id r)),
        (''attribute_context_schema_variant_id'',
           json_of_bigint (col_attribute_context_schema_variant_id r)),
        (''attribute_context_component_id'',
           json_of_bigint (col_attribute_context_component_id r)),
        (''attribute_context_system_id'', json_of_bigint (col_attribute_context_system_id r)),
        (''created_at'', JsonString (col_created_at r)),
        (''updated_at'', JsonString (col_updated_at r)),
        (''prop_id'', json_of_bigint (col_prop_id r)),
        (''schema_id'', json_of_bigint (col_schema_id r)),
        (''schema_variant_id'', json_of_bigint (col_schema_variant_id r)),
        (''name'', json_of_text (col_name r)),
        (''type_definition'', json_of_text (col_type_definition r)),
        (''attribute_prototype_id'', json_of_bigint (col_attribute_prototype_id r))]"

text \<open>
  The row the \<open>INSERT\<close> builds: the thirteen columns it names from its \<open>VALUES\<close>, the
  others from their defaults (the two sequences, \<open>NOW()\<close>, NULL).
\<close>

definition inserted_row ::
  "bigint \<Rightarrow> bigint \<Rightarrow> timestamptz \<Rightarrow> bool \<Rightarrow> tenancy_record_v1 \<Rightarrow> visibility_record_v1
     \<Rightarrow> bigint option \<Rightarrow> bigint option \<Rightarrow> bigint option \<Rightarrow> string option \<Rightarrow> string option
     \<Rightarrow> bigint option \<Rightarrow> external_providers_row" where
  "inserted_row new_pk new_id now universal this_tenancy_record this_visibility_record
      this_prop_id this_schema_id this_schema_variant_id this_name this_type_definition
      this_attribute_prototype_id =
     \<lparr>col_pk = new_pk,
      col_id = new_id,
      col_tenancy_universal = universal,
      col_tenancy_billing_account_ids = tenancy_billing_account_ids this_tenancy_record,
      col_tenancy_organization_ids = tenancy_organization_ids this_tenancy_record,
      col_tenancy_workspace_ids = tenancy_workspace_ids this_tenancy_record,
      col_visibility_change_set_pk = visibility_change_set_pk this_visibility_record,
      col_visibility_edit_session_pk = visibility_edit_session_pk this_visibility_record,
      col_visibility_deleted_at = visibility_deleted_at this_visibility_record,
      col_attribute_context_prop_id = None,
      col_attribute_context_schema_id = None,
      col_attribute_context_schema_variant_id = None,
      col_attribute_context_component_id = None,
      col_attribute_context_system_id = None,
      col_created_at = now,
      col_updated_at = now,
      col_prop_id = this_prop_id,
      col_schema_id = this_schema_id,
      col_schema_variant_id = this_schema_variant_id,
      col_name = this_name,
      col_type_definition = this_type_definition,
      col_attribute_prototype_id = this_attribute_prototype_id\<rparr>"

text \<open>
  The procedure. The \<open>INSERT\<close> first takes the defaults, then checks \<open>NOT NULL\<close>, then
  the primary key and the other constraints. A sequence does not take its value back when
  the statement fails, so an error comes with the database as the failed call leaves it.
\<close>

definition external_provider_create_v1 ::
  "environment \<Rightarrow> json option \<Rightarrow> json option \<Rightarrow> bigint option \<Rightarrow> bigint option \<Rightarrow> bigint option
     \<Rightarrow> string option \<Rightarrow> string option \<Rightarrow> bigint option \<Rightarrow> database
     \<Rightarrow> (sql_error \<times> database) + (json \<times> database)" where
  "external_provider_create_v1 env this_tenancy this_visibility this_prop_id this_schema_id
      this_schema_variant_id this_name this_type_definition this_attribute_prototype_id db =
     (case tenancy_json_to_columns_v1 env this_tenancy of
        Inl e \<Rightarrow> Inl (e, db)
      | Inr this_tenancy_record \<Rightarrow>
     (case visibility_json_to_columns_v1 env this_visibility of
        Inl e \<Rightarrow> Inl (e, db)
      | Inr this_visibility_record \<Rightarrow>
     (case nextval ''external_providers_pk_seq'' (external_providers_pk_seq db) of
        Inl e \<Rightarrow> Inl (e, db)
      | Inr new_pk \<Rightarrow>
     (let db1 = db\<lparr>external_providers_pk_seq := new_pk\<rparr> in
      case nextval ''external_providers_id_seq'' (external_providers_id_seq db1) of
        Inl e \<Rightarrow> Inl (e, db1)
      | Inr new_id \<Rightarrow>
     (let db2 = db1\<lparr>external_providers_id_seq := new_id\<rparr> in
      case tenancy_universal this_tenancy_record of
        None \<Rightarrow> Inl (not_null_violation ''tenancy_universal'', db2)
      | Some universal \<Rightarrow>
     (let this_new_row =
            inserted_row new_pk new_id (NOW env) universal this_tenancy_record
              this_visibility_record this_prop_id this_schema_id this_schema_variant_id
              this_name this_type_definition this_attribute_prototype_id
      in if new_pk \<in> col_pk ` set (external_providers db2)
         then Inl (unique_violation ''external_providers_pkey'', db2)
         else if \<not> standard_model_table_constraints_v1 env (external_providers db2) this_new_row
         then Inl (constraint_violation ''external_providers'', db2)
         else Inr (row_to_json this_new_row,
                   db2\<lparr>external_providers := external_providers db2 @ [this_new_row]\<rparr>)))))))"

section \<open>Sample values\<close>

text \<open>Concrete states, payloads and backends on which the theorems below are exercised.\<close>

definition ctxA :: InstanceStoreContext where
  "ctxA = \<lparr>storeName = ''editor'', instanceId = ''1'', activateName = ''a'',
           dispatchPath = (\<lambda>p. ''editor/1'')\<rparr>"

definition sessionA :: EditSession where
  "sessionA = \<lparr>es_id = ''es1'', es_name = ''first'', es_changeSetId = ''cs1''\<rparr>"

definition changeSetA :: ChangeSet where
  "changeSetA = \<lparr>cs_id = ''cs1'', cs_name = ''one'', cs_status = Open\<rparr>"

definition gettersA :: RootGetters where
  "gettersA = \<lparr>workspace_current = Some \<lparr>ws_id = ''w1''\<rparr>,
               organization_current = Some \<lparr>org_id = ''o1''\<rparr>,
               user_current = Some \<lparr>user_name = ''ada''\<rparr>\<rparr>"

definition nodeA :: Node where
  "nodeA = \<lparr>node_id = ''n1'', node_objectType = ''service''\<rparr>"

definition applicationA :: Entity where
  "applicationA = \<lparr>ent_id = ''e0'', ent_nodeId = ''n0'', ent_head = True,
                   ent_changeSetId = '''', ent_typeName = ''entity'', ent_deleted = False\<rparr>"

definition backendA :: Backend where
  "backendA =
     \<lparr>EditSession_create =
        (\<lambda>changeSetId req. Inr \<lparr>es_id = ''es2'', es_name = req_name req,
                                es_changeSetId = changeSetId\<rparr>),
      Entity_node = (\<lambda>e. Inr \<lparr>node_id = ent_nodeId e, node_objectType = ''application''\<rparr>),
      Node_successors = (\<lambda>n. Inr [nodeA]),
      Resource_getByEntityIdAndSystemId =
        (\<lambda>nodeId systemId. Inr \<lparr>res_id = ''r1'', res_nodeId = nodeId,
                                res_systemId = systemId\<rparr>)\<rparr>"

definition nodeB :: Node where
  "nodeB = \<lparr>node_id = ''n2'', node_objectType = ''service''\<rparr>"

definition closedA :: ChangeSet where
  "closedA = \<lparr>cs_id = ''cs1'', cs_name = ''one'', cs_status = OtherStatus ''Closed''\<rparr>"

definition closedB :: ChangeSet where
  "closedB = \<lparr>cs_id = ''cs2'', cs_name = ''two'', cs_status = OtherStatus ''Closed''\<rparr>"

definition stateA :: EditorStore where
  "stateA = editor_state\<lparr>changeSetsOpen := [\<lparr>cs_id = ''cs1'', cs_name = ''stale'', cs_status = Open\<rparr>],
                          changeSet := Some changeSetA\<rparr>"

definition stateB :: EditorStore where
  "stateB = editor_state\<lparr>application := Some applicationA\<rparr>"

text \<open>
  A sample environment for the create procedure. Its conversions read the members of a
  json object by name and give NULL for a member that is missing or of another type; it
  puts no further constraint on the table.
\<close>

definition json_member_bool :: "json option \<Rightarrow> string \<Rightarrow> bool option" where
  "json_member_bool j k =
     (case j of
        Some (JsonObject ms) \<Rightarrow> (case map_of ms k of Some (JsonBool b) \<Rightarrow> Some b | _ \<Rightarrow> None)
      | _ \<Rightarrow> None)"

definition json_member_bigint :: "json option \<Rightarrow> string \<Rightarrow> bigint option" where
  "json_member_bigint j k =
     (case j of
        Some (JsonObject ms) \<Rightarrow> (case map_of ms k of Some (JsonNumber n) \<Rightarrow> Some n | _ \<Rightarrow> None)
      | _ \<Rightarrow> None)"

definition envA :: environment where
  "envA =
     \<lparr>tenancy_json_to_columns_v1 =
        (\<lambda>j. Inr \<lparr>tenancy_universal = json_member_bool j ''tenancy_universal'',
                  tenancy_billing_account_ids = None,
                  tenancy_organization_ids = None,
                  tenancy_workspace_ids = None\<rparr>),
      visibility_json_to_columns_v1 =
        (\<lambda>j. Inr \<lparr>visibility_change_set_pk = json_member_bigint j ''visibility_change_set_pk'',
                  visibility_edit_session_pk = json_member_bigint j ''visibility_edit_session_pk'',
                  visibility_deleted_at = None\<rparr>),
      standard_model_table_constraints_v1 = (\<lambda>rows new_row. True),
      NOW = ''2022-11-01 12:00:00+00''\<rparr>"

definition rowA :: external_providers_row where
  "rowA =
     \<lparr>col_pk = 1, col_id = 1, col_tenancy_universal = True,
      col_tenancy_billing_account_ids = None, col_tenancy_organization_ids = None,
      col_tenancy_workspace_ids = None, col_visibility_change_set_pk = None,
      col_visibility_edit_session_pk = None, col_visibility_deleted_at = None,
      col_attribute_context_prop_id = None, col_attribute_context_schema_id = None,
      col_attribute_context_schema_variant_id = None,
      col_attribute_context_component_id = None, col_attribute_context_system_id = None,
      col_created_at = ''2022-10-01 09:00:00+00'', col_updated_at = ''2022-10-01 09:00:00+00'',
      col_prop_id = Some 7, col_schema_id = Some 1, col_schema_variant_id = Some 1,
      col_name = Some ''output'', col_type_definition = None,
      col_attribute_prototype_id = Some 3\<rparr>"

definition dbA :: database where
  "dbA =
     \<lparr>external_providers = [rowA],
      standard_models =
        [\<lparr>table_name = ''external_providers'', table_type = ''model'',
          history_event_label_base = ''external_provider'',
          history_event_message_name = ''Output Provider''\<rparr>],
      external_providers_pk_seq = 1,
      external_providers_id_seq = 1\<rparr>"

definition tenancyA :: "json option" where
  "tenancyA = Some (JsonObject [(''tenancy_universal'', JsonBool True)])"

definition visibilityA :: "json option" where
  "visibilityA = Some (JsonObject [(''visibility_change_set_pk'', JsonNumber 5)])"

definition eventA :: Event where
  "eventA = \<lparr>ev_id = ''e1'', ev_message = ''deploy'', startUnixTimestamp = 10\<rparr>"

definition eventB :: Event where
  "eventB = \<lparr>ev_id = ''e2'', ev_message = ''sync'', startUnixTimestamp = 20\<rparr>"

definition eventA_again :: Event where
  "eventA_again = \<lparr>ev_id = ''e1'', ev_message = ''deploy done'', startUnixTimestamp = 30\<rparr>"

definition eventC :: Event where
  "eventC = \<lparr>ev_id = ''e3'', ev_message = ''check'', startUnixTimestamp = 15\<rparr>"

definition stateE :: EditorStore where
  "stateE =
     editor_state\<lparr>eventBar :=
       [\<lparr>item_id = ''e2'', item_event = eventB, item_logs = [], item_output = []\<rparr>,
        \<lparr>item_id = ''e1'', item_event = eventA, item_logs = [], item_output = []\<rparr>]\<rparr>"

section \<open>The exists check function: result\<close>

lemma not_object_prototype_keys:
  "''resource'' \<notin> set object_prototype_keys"
  "''value'' \<notin> set object_prototype_keys"
  "''deleted_at'' \<notin> set object_prototype_keys"
  by (simp_all add: object_prototype_keys_def)

lemma get_prop_opt_value:
  "get_prop_opt r ''value'' =
     Inr (case r of
            JObj ps \<Rightarrow> (case map_of ps ''value'' of Some v \<Rightarrow> v | None \<Rightarrow> JUndefined)
          | _ \<Rightarrow> JUndefined)"
  by (cases r) (simp_all add: not_object_prototype_keys split: option.splits)

text \<open>
  For an input that is an object: a missing property reads as \<open>undefined\<close>, as does the
  \<open>value\<close> of a \<open>resource\<close> that is no object.
\<close>

lemma exists_check_object:
  "exists_check (JObj input) =
     Inr (if truthy (case map_of input ''resource'' of
                       Some (JObj r) \<Rightarrow>
                         (case map_of r ''value'' of Some v \<Rightarrow> v | None \<Rightarrow> JUndefined)
                     | _ \<Rightarrow> JUndefined)
             \<and> truthy (case map_of input ''deleted_at'' of Some d \<Rightarrow> d | None \<Rightarrow> JUndefined)
          then \<lparr>success = False, recommendedActions = [''delete'']\<rparr>
          else \<lparr>success = True, recommendedActions = []\<rparr>)"
  by (simp add: exists_check_def get_prop_opt_value not_object_prototype_keys
           split: option.splits js_value.splits)

text \<open>
  C10. For every input other than \<open>undefined\<close> and \<open>null\<close>, \<open>exists\<close> resolves (it is
  not rejected): to \<open>{ success: false, recommendedActions: ["delete"] }\<close> exactly when the
  \<open>value\<close> of the input's \<open>resource\<close> is truthy and \<open>deleted_at\<close> is truthy, and to
  \<open>{ success: true, recommendedActions: [] }\<close> in every other case. An input that is no
  object has neither property.
\<close>

theorem exists_check_non_nullish:
  "input \<noteq> JUndefined \<and> input \<noteq> JNull \<longrightarrow>
   exists_check input =
     Inr (if truthy (case input of
                       JObj ps \<Rightarrow>
                         (case map_of ps ''resource'' of
                            Some (JObj r) \<Rightarrow>
                              (case map_of r ''value'' of Some v \<Rightarrow> v | None \<Rightarrow> JUndefined)
                          | _ \<Rightarrow> JUndefined)
                     | _ \<Rightarrow> JUndefined)
             \<and> truthy (case input of
                         JObj ps \<Rightarrow>
                           (case map_of ps ''deleted_at'' of Some d \<Rightarrow> d | None \<Rightarrow> JUndefined)
                       | _ \<Rightarrow> JUndefined)
          then \<lparr>success = False, recommendedActions = [''delete'']\<rparr>
          else \<lparr>success = True, recommendedActions = []\<rparr>)"
proof (cases input)
  case (JObj ps)
  then show ?thesis by (simp add: exists_check_object)
qed (simp_all add: exists_check_def not_object_prototype_keys)

theorem exists_check_non_nullish_witness:
  "JObj [(''resource'', JObj [(''value'', JStr ''vpc-1'')]), (''deleted_at'', JStr ''2022-10-01'')]
      \<noteq> JUndefined
   \<and> JObj [(''resource'', JObj [(''value'', JStr ''vpc-1'')]), (''deleted_at'', JStr ''2022-10-01'')]
      \<noteq> JNull
   \<and> exists_check (JObj [(''resource'', JObj [(''value'', JStr ''vpc-1'')]),
                         (''deleted_at'', JStr ''2022-10-01'')])
       = Inr \<lparr>success = False, recommendedActions = [''delete'']\<rparr>
   \<and> exists_check (JObj [(''resource'', JObj [(''value'', JStr ''vpc-1'')])])
       = Inr \<lparr>success = True, recommendedActions = []\<rparr>
   \<and> exists_check (JStr ''vpc-1'') = Inr \<lparr>success = True, recommendedActions = []\<rparr>"
  using exists_check_non_nullish
          [of "JObj [(''resource'', JObj [(''value'', JStr ''vpc-1'')]),
                     (''deleted_at'', JStr ''2022-10-01'')]"]
        exists_check_non_nullish [of "JObj [(''resource'', JObj [(''value'', JStr ''vpc-1'')])]"]
        exists_check_non_nullish [of "JStr ''vpc-1''"]
  by simp

text \<open>
  With \<open>undefined\<close> or \<open>null\<close> in place of the input, reading \<open>input.resource\<close> throws a
  TypeError: the promise is rejected. The parameter's type \<open>Input\<close> is an object type.
\<close>

theorem exists_check_undefined_throws:
  "exists_check JUndefined = Inl (TypeError ''resource'')
   \<and> exists_check JNull = Inl (TypeError ''resource'')"
  by (simp add: exists_check_def)

section \<open>Icon registry: lookup\<close>

lemma nameWithoutModifiers_prefix:
  "\<exists>rest. name = nameWithoutModifiers name @ rest \<and> (rest = [] \<or> take 2 rest = ''--'')"
  by (induction name rule: nameWithoutModifiers.induct) auto

lemma nameWithoutModifiers_no_separator:
  "nameWithoutModifiers name \<noteq> u @ ''--'' @ v"
proof (induction name arbitrary: u rule: nameWithoutModifiers.induct)
  case (1 a b cs)
  show ?case
  proof (cases "a = CHR ''-'' \<and> b = CHR ''-''")
    case True
    then show ?thesis by simp
  next
    case False
    show ?thesis
    proof (cases u)
      case Nil
      with False show ?thesis by (cases cs) (auto split: if_splits)
    next
      case (Cons c u')
      with False 1[of u'] show ?thesis by auto
    qed
  qed
qed (auto simp add: Cons_eq_append_conv)

lemma ICONS_undefined: "map_of ICONS ''undefined'' = None"
  by (simp add: ICONS_def)

lemma ICONS_help_circle: "table_get ICONS ''help-circle'' = Own (Asset ''QuestionMarkCircle'')"
  by (simp add: ICONS_def table_get_def)

text \<open>
  For a name whose base is no member of \<open>Object.prototype\<close> the lookup is the registered
  one: the spinnable entry, else the regular entry, else (there are no aliases) the
  \<open>help-circle\<close> icon.
\<close>

lemma getIconByName_registered:
  assumes "nameWithoutModifiers name \<notin> set object_prototype_keys"
  shows "getIconByName name =
           (case map_of SPINNABLE_ICONS (nameWithoutModifiers name) of
              Some i \<Rightarrow> Own i
            | None \<Rightarrow>
               (case map_of ICONS (nameWithoutModifiers name) of
                  Some i \<Rightarrow> Own i
                | None \<Rightarrow> Own (Asset ''QuestionMarkCircle'')))"
proof -
  let ?n = "nameWithoutModifiers name"
  have no_alias: "table_get ICON_NAME_ALIASES ?n = Undefined"
    using assms by (simp add: table_get_def ICON_NAME_ALIASES_def)
  have third: "table_get ICONS (to_property_key (table_get ICON_NAME_ALIASES ?n)) = Undefined"
    unfolding no_alias by (simp add: table_get_def ICONS_undefined object_prototype_keys_def)
  have own: "table_get tbl ?n = (case map_of tbl ?n of Some i \<Rightarrow> Own i | None \<Rightarrow> Undefined)"
    for tbl :: "(string \<times> icon) list"
    using assms by (simp add: table_get_def split: option.splits)
  show ?thesis
    unfolding getIconByName_def Let_def third ICONS_help_circle own[of SPINNABLE_ICONS] own[of ICONS]
    by (simp add: js_or_def split: option.splits)
qed

lemma getIconByName_examples:
  "getIconByName ''arrow--down'' = Own (Asset ''Arrow'')"
  "getIconByName ''trash'' = Own (Asset ''Trash'')"
  "getIconByName ''no-such-icon'' = Own (Asset ''QuestionMarkCircle'')"
  by (simp_all add: getIconByName_registered object_prototype_keys_def SPINNABLE_ICONS_def ICONS_def)

text \<open>
  C3. The name \<open>constructor\<close> has no modifier, is a key of none of the three tables,
  and yet \<open>getIconByName\<close> does not fall back to the \<open>help-circle\<close> icon: the read on
  \<open>SPINNABLE_ICONS\<close> finds \<open>Object.prototype.constructor\<close>, which is truthy, and that
  function is returned.
\<close>

theorem getIconByName_constructor:
  "nameWithoutModifiers ''constructor'' = ''constructor''
   \<and> map_of SPINNABLE_ICONS ''constructor'' = None
   \<and> map_of ICONS ''constructor'' = None
   \<and> map_of ICON_NAME_ALIASES ''constructor'' = None
   \<and> getIconByName ''constructor'' = Inherited ''constructor''
   \<and> getIconByName ''constructor'' \<noteq> table_get ICONS ''help-circle''"
  by (simp add: getIconByName_def table_get_def js_or_def SPINNABLE_ICONS_def ICONS_def
        ICON_NAME_ALIASES_def object_prototype_keys_def)

section \<open>Application context store: errors, deactivation, clear\<close>

text \<open>
  C1. Each of the six actions that call the DAL, given a reply that carries an error,
  commits no mutation and has no other effect: the state it leaves is the state it
  found, and the reply it returns is the reply it got.
\<close>

theorem dal_error_commits_nothing:
  "loadApplicationContext fresh s (ReplyError e) = (s, [], ReplyError e)
   \<and> loadChangeSetAndEditSession s (ReplyError e) = (s, [], ReplyError e)
   \<and> createEditSessionAndLoadChangeSet s (ReplyError e) = (s, [], ReplyError e)
   \<and> createChangeSetAndEditSession fresh s (ReplyError e) = (s, [], ReplyError e)
   \<and> createEditSession s (ReplyError e) = (s, [], ReplyError e)
   \<and> cancelEditSession s (ReplyError e) = (s, [], ReplyError e)"
  by (simp add: loadApplicationContext_def loadChangeSetAndEditSession_def
        createEditSessionAndLoadChangeSet_def createChangeSetAndEditSession_def
        createEditSession_def cancelEditSession_def)

text \<open>
  A reply without error is committed; \<open>setApplicationContext\<close> then also grows the list
  inside the reply that is returned.
\<close>

lemma loadApplicationContext_success_example:
  "loadApplicationContext 9 state_init
     (ReplySuccess \<lparr>reply_applicationName = ''shop'', reply_systemsList = [],
                    reply_openChangeSetsList = []\<rparr>)
   = (state_init\<lparr>applicationName := Some ''shop'',
                  openChangeSetsList := [\<lparr>oid = 9, entry_value = [], entry_label = []\<rparr>]\<rparr>,
      [],
      ReplySuccess \<lparr>reply_applicationName = ''shop'', reply_systemsList = [],
                    reply_openChangeSetsList = [\<lparr>oid = 9, entry_value = [], entry_label = []\<rparr>]\<rparr>)"
  by (simp add: loadApplicationContext_def setApplicationContext_def state_init_def Let_def)

text \<open>
  C2. \<open>deactivate\<close> takes the activator's name out of \<open>activatedBy\<close>. If nothing is left,
  the store is cleared: \<open>applicationId\<close>, \<open>applicationName\<close>, \<open>currentSystem\<close> and
  \<open>currentChangeSet\<close> are null, \<open>systemsList\<close> and \<open>openChangeSetsList\<close> are empty,
  \<open>statusBarCtx\<close> is undefined. If a name is left, no field but \<open>activatedBy\<close> changes.
\<close>

theorem deactivate_clears_iff_last:
  "activatedBy (deactivate s ctx) = activatedBy s |-| {|activateName ctx|}
   \<and> (activatedBy s |-| {|activateName ctx|} = {||} \<longrightarrow>
        applicationId (deactivate s ctx) = None
      \<and> applicationName (deactivate s ctx) = None
      \<and> systemsList (deactivate s ctx) = []
      \<and> openChangeSetsList (deactivate s ctx) = []
      \<and> currentSystem (deactivate s ctx) = None
      \<and> currentChangeSet (deactivate s ctx) = None
      \<and> statusBarCtx (deactivate s ctx) = Undef)
   \<and> (activatedBy s |-| {|activateName ctx|} \<noteq> {||} \<longrightarrow>
        deactivate s ctx = s\<lparr>activatedBy := activatedBy s |-| {|activateName ctx|}\<rparr>)"
  by (simp add: deactivate_def removeFromActivatedBy_def clear_def Let_def)

theorem deactivate_clears_iff_last_witness:
  "activatedBy (state_init\<lparr>activatedBy := {|''a''|}, applicationId := Some ''app''\<rparr>)
       |-| {|activateName ctxA|} = {||}
   \<and> applicationId (deactivate (state_init\<lparr>activatedBy := {|''a''|},
                                             applicationId := Some ''app''\<rparr>) ctxA) = None
   \<and> activatedBy (state_init\<lparr>activatedBy := {|''a'', ''b''|}, applicationId := Some ''app''\<rparr>)
       |-| {|activateName ctxA|} \<noteq> {||}
   \<and> deactivate (state_init\<lparr>activatedBy := {|''a'', ''b''|}, applicationId := Some ''app''\<rparr>) ctxA
       = state_init\<lparr>activatedBy := {|''b''|}, applicationId := Some ''app''\<rparr>"
  using deactivate_clears_iff_last
          [of "state_init\<lparr>activatedBy := {|''a''|}, applicationId := Some ''app''\<rparr>" ctxA]
        deactivate_clears_iff_last
          [of "state_init\<lparr>activatedBy := {|''a'', ''b''|}, applicationId := Some ''app''\<rparr>" ctxA]
  by (simp add: ctxA_def state_init_def)

text \<open>
  C9. \<open>clear\<close> leaves \<open>currentEditSession\<close>, \<open>editMode\<close> and \<open>activatedBy\<close> as they
  are, and resets the other seven fields (\<open>statusBarCtx\<close> to undefined). So when the last
  activator deactivates, the edit session and the edit mode of the store survive.
\<close>

theorem clear_keeps_edit_session:
  "currentEditSession (clear s) = currentEditSession s
   \<and> editMode (clear s) = editMode s
   \<and> activatedBy (clear s) = activatedBy s
   \<and> applicationId (clear s) = None
   \<and> applicationName (clear s) = None
   \<and> systemsList (clear s) = []
   \<and> currentSystem (clear s) = None
   \<and> openChangeSetsList (clear s) = []
   \<and> currentChangeSet (clear s) = None
   \<and> statusBarCtx (clear s) = Undef
   \<and> (activatedBy s |\<subseteq>| {|activateName ctx|} \<longrightarrow>
         currentEditSession (deactivate s ctx) = currentEditSession s
       \<and> editMode (deactivate s ctx) = editMode s)"
  by (simp add: clear_def deactivate_def removeFromActivatedBy_def Let_def)

theorem clear_keeps_edit_session_witness:
  "activatedBy (state_init\<lparr>activatedBy := {|''a''|}, currentEditSession := Some sessionA,
                            editMode := True\<rparr>) |\<subseteq>| {|activateName ctxA|}
   \<and> currentEditSession (deactivate (state_init\<lparr>activatedBy := {|''a''|},
          currentEditSession := Some sessionA, editMode := True\<rparr>) ctxA) = Some sessionA
   \<and> editMode (deactivate (state_init\<lparr>activatedBy := {|''a''|},
          currentEditSession := Some sessionA, editMode := True\<rparr>) ctxA)"
  using clear_keeps_edit_session
          [of "state_init\<lparr>activatedBy := {|''a''|}, currentEditSession := Some sessionA,
                          editMode := True\<rparr>" ctxA]
  by (simp add: ctxA_def state_init_def)

section \<open>lodash: unionBy and orderBy\<close>

lemma set_uniq_by_seen: "set (uniq_by_seen f seen xs) \<subseteq> set xs"
  by (induction xs arbitrary: seen) auto

lemma keys_uniq_by_seen: "f ` set (uniq_by_seen f seen xs) = f ` set xs - set seen"
  by (induction xs arbitrary: seen) auto

lemma distinct_uniq_by_seen: "distinct (map f (uniq_by_seen f seen xs))"
proof (induction xs arbitrary: seen)
  case Nil
  then show ?case by simp
next
  case (Cons x xs)
  have "f x \<notin> f ` set (uniq_by_seen f (f x # seen) xs)"
    by (simp add: keys_uniq_by_seen)
  with Cons show ?case by simp
qed

lemma uniq_by_seen_distinct:
  "distinct (map f xs) \<Longrightarrow> uniq_by_seen f seen xs = filter (\<lambda>x. f x \<notin> set seen) xs"
proof (induction xs arbitrary: seen)
  case Nil
  then show ?case by simp
next
  case (Cons x xs)
  from Cons.prems have other: "f y \<noteq> f x" if "y \<in> set xs" for y
    using that by (auto simp add: image_iff)
  have "filter (\<lambda>y. f y \<notin> set (f x # seen)) xs = filter (\<lambda>y. f y \<notin> set seen) xs"
    by (rule filter_cong) (auto simp add: other)
  with Cons show ?case by simp
qed

lemma unionBy_single: "unionBy [p] xs f = p # uniq_by_seen f [f p] xs"
  by (simp add: unionBy_def)

lemma filter_key_unionBy_single: "filter (\<lambda>c. f c = f p) (unionBy [p] xs f) = [p]"
proof -
  have "f p \<notin> f ` set (uniq_by_seen f [f p] xs)"
    by (subst keys_uniq_by_seen) simp
  then have "filter (\<lambda>c. f c = f p) (uniq_by_seen f [f p] xs) = []"
    by (auto simp add: filter_empty_conv image_iff)
  then show ?thesis by (simp add: unionBy_single)
qed

lemma distinct_unionBy_single: "distinct (map f (unionBy [p] xs f))"
  by (simp add: unionBy_single distinct_uniq_by_seen keys_uniq_by_seen)

lemma keys_unionBy_single: "f ` set (unionBy [p] xs f) = insert (f p) (f ` set xs)"
  by (auto simp add: unionBy_single keys_uniq_by_seen)

lemma set_unionBy_single: "set (unionBy [p] xs f) \<subseteq> insert p (set xs)"
  using set_uniq_by_seen[of f "[f p]" xs] by (auto simp add: unionBy_single)

lemma unionBy_single_distinct:
  "distinct (map f xs) \<Longrightarrow> unionBy [p] xs f = p # filter (\<lambda>c. f c \<noteq> f p) xs"
  by (simp add: unionBy_single uniq_by_seen_distinct)

lemma set_insert_by: "set (insert_by before x ys) = insert x (set ys)"
  by (induction ys) auto

lemma distinct_map_insert_by:
  "distinct (map g (insert_by before x ys)) \<longleftrightarrow> g x \<notin> g ` set ys \<and> distinct (map g ys)"
  by (induction ys) (auto simp add: set_insert_by)

lemma set_fold_insert_by: "set (fold (insert_by before) xs acc) = set xs \<union> set acc"
  by (induction xs arbitrary: acc) (auto simp add: set_insert_by)

lemma distinct_map_fold_insert_by:
  "distinct (map g (fold (insert_by before) xs acc)) \<longleftrightarrow> distinct (map g (xs @ acc))"
  by (induction xs arbitrary: acc) (auto simp add: distinct_map_insert_by set_insert_by)

lemma sorted_insert_by_desc:
  fixes k :: "'a \<Rightarrow> 'k::linorder"
  assumes "sorted_wrt (\<lambda>a b. k b \<le> k a) ys"
  shows "sorted_wrt (\<lambda>a b. k b \<le> k a) (insert_by (\<lambda>x y. k x > k y) x ys)"
  using assms
proof (induction ys)
  case Nil
  then show ?case by simp
next
  case (Cons y ys)
  show ?case
  proof (cases "k x > k y")
    case True
    with Cons.prems show ?thesis by force
  next
    case False
    with Cons show ?thesis by (auto simp add: set_insert_by)
  qed
qed

lemma sorted_fold_insert_by_desc:
  fixes k :: "'a \<Rightarrow> 'k::linorder"
  shows "sorted_wrt (\<lambda>a b. k b \<le> k a) acc
     \<Longrightarrow> sorted_wrt (\<lambda>a b. k b \<le> k a) (fold (insert_by (\<lambda>x y. k x > k y)) xs acc)"
  by (induction xs arbitrary: acc) (simp_all add: sorted_insert_by_desc)

lemma sorted_orderBy_desc: "sorted_wrt (\<lambda>a b. k b \<le> k a) (orderBy_desc k xs)"
  by (simp add: orderBy_desc_def sorted_fold_insert_by_desc)

lemma set_orderBy_desc: "set (orderBy_desc k xs) = set xs"
  by (simp add: orderBy_desc_def set_fold_insert_by)

lemma distinct_map_orderBy_desc: "distinct (map g (orderBy_desc k xs)) \<longleftrightarrow> distinct (map g xs)"
  by (simp add: orderBy_desc_def distinct_map_fold_insert_by)

lemma sorted_wrt_take_prefix: "sorted_wrt P xs \<Longrightarrow> sorted_wrt P (take n xs)"
  by (metis append_take_drop_id sorted_wrt_append)

section \<open>Editor store: edit sessions, change sets, nodes, events\<close>

text \<open>
  C4. Without a current change set \<open>editSessionCreate\<close> throws the error "cannot start
  an edit session without a change set!" and leaves the store as it is, with no request
  sent. Whenever it does ask the backend to create an edit session, it does so with the
  id of the current change set, and a new value of \<open>editSession\<close> is the session the
  backend created for that change set.
\<close>

theorem editSessionCreate_needs_changeSet:
  "(changeSet s = None \<longrightarrow>
      editSessionCreate backend now rootGetters s =
        (s, [], Inl (Error ''cannot start an edit session without a change set!'')))
   \<and> (\<forall>changeSetId req.
         Call_EditSession_create changeSetId req
           \<in> set (fst (snd (editSessionCreate backend now rootGetters s)))
         \<longrightarrow> map_option cs_id (changeSet s) = Some changeSetId)
   \<and> (editSession (fst (editSessionCreate backend now rootGetters s)) \<noteq> editSession s \<longrightarrow>
        (\<exists>cs req es. changeSet s = Some cs \<and> EditSession_create backend (cs_id cs) req = Inr es
            \<and> editSession (fst (editSessionCreate backend now rootGetters s)) = Some es))"
  by (auto simp add: editSessionCreate_def editSession_mutation_def Let_def
        split: option.splits sum.splits)

theorem editSessionCreate_needs_changeSet_witness:
  "changeSet editor_state = None
   \<and> editSessionCreate backendA ''2021-03-01T10:00:00.000Z'' gettersA editor_state =
        (editor_state, [], Inl (Error ''cannot start an edit session without a change set!''))
   \<and> Call_EditSession_create ''cs1''
         \<lparr>req_name = ''ada 2021-03-01T10:00:00.000Z'', req_workspaceId = ''w1'',
          req_organizationId = ''o1''\<rparr>
        \<in> set (fst (snd (editSessionCreate backendA ''2021-03-01T10:00:00.000Z'' gettersA stateA)))
   \<and> map_option cs_id (changeSet stateA) = Some ''cs1''
   \<and> editSession (fst (editSessionCreate backendA ''2021-03-01T10:00:00.000Z'' gettersA stateA))
        \<noteq> editSession stateA
   \<and> editSession (fst (editSessionCreate backendA ''2021-03-01T10:00:00.000Z'' gettersA stateA))
        = Some \<lparr>es_id = ''es2'', es_name = ''ada 2021-03-01T10:00:00.000Z'',
                es_changeSetId = ''cs1''\<rparr>"
  using editSessionCreate_needs_changeSet
          [of editor_state backendA "''2021-03-01T10:00:00.000Z''" gettersA]
        editSessionCreate_needs_changeSet
          [of stateA backendA "''2021-03-01T10:00:00.000Z''" gettersA]
  by (simp add: editSessionCreate_def editSession_mutation_def editor_state_def stateA_def
        backendA_def gettersA_def changeSetA_def)

text \<open>
  C5. \<open>fromChangeSet\<close> with an open change set changes \<open>changeSetsOpen\<close> only: the
  payload is in it, it is the one entry with its id, no id occurs twice, and the ids are
  those that were there plus the payload's. With a change set that is not open, every
  entry with the payload's id is taken out of \<open>changeSetsOpen\<close>; if the payload is the
  current change set, \<open>setChangeSet\<close> is dispatched with no id, which unsets the current
  change set and the participant count; if it is not, nothing else changes.
\<close>

theorem fromChangeSet_open_or_not:
  "(cs_status p = Open \<longrightarrow>
      fromChangeSet s p = (s\<lparr>changeSetsOpen := unionBy [p] (changeSetsOpen s) cs_id\<rparr>, [])
    \<and> filter (\<lambda>c. cs_id c = cs_id p) (changeSetsOpen (fst (fromChangeSet s p))) = [p]
    \<and> distinct (map cs_id (changeSetsOpen (fst (fromChangeSet s p))))
    \<and> cs_id ` set (changeSetsOpen (fst (fromChangeSet s p)))
         = insert (cs_id p) (cs_id ` set (changeSetsOpen s))
    \<and> set (changeSetsOpen (fst (fromChangeSet s p))) \<subseteq> insert p (set (changeSetsOpen s))
    \<and> (distinct (map cs_id (changeSetsOpen s)) \<longrightarrow>
          changeSetsOpen (fst (fromChangeSet s p))
            = p # filter (\<lambda>c. cs_id c \<noteq> cs_id p) (changeSetsOpen s)))
   \<and> (cs_status p \<noteq> Open \<longrightarrow>
        changeSetsOpen (fst (fromChangeSet s p))
          = filter (\<lambda>c. cs_id c \<noteq> cs_id p) (changeSetsOpen s)
      \<and> (map_option cs_id (changeSet s) = Some (cs_id p) \<longrightarrow>
            fromChangeSet s p
              = (changeSetsOpenRemove (fst (setChangeSet_start s None)) p,
                 snd (setChangeSet_start s None))
          \<and> changeSet (fst (fromChangeSet s p)) = None
          \<and> changeSetParticipantCount (fst (fromChangeSet s p)) = 0
          \<and> RouterReplace ''changeSetId'' None \<in> set (snd (fromChangeSet s p)))
      \<and> (map_option cs_id (changeSet s) \<noteq> Some (cs_id p) \<longrightarrow>
            fromChangeSet s p
              = (s\<lparr>changeSetsOpen := filter (\<lambda>c. cs_id c \<noteq> cs_id p) (changeSetsOpen s)\<rparr>, [])))"
proof -
  have open_case: "fromChangeSet s p = (s\<lparr>changeSetsOpen := unionBy [p] (changeSetsOpen s) cs_id\<rparr>, [])"
    if "cs_status p = Open"
    using that by (simp add: fromChangeSet_def changeSetsOpenAdd_def)
  have start: "setChangeSet_start s None
                 = (s\<lparr>changeSet := None, changeSetParticipantCount := 0\<rparr>,
                    RouterReplace ''changeSetId'' None #
                      (case application s of
                         None \<Rightarrow> []
                       | Some app \<Rightarrow> [Started_Node_get (ent_nodeId app)]))"
    by (simp add: setChangeSet_start_def truthy_id_def changeSet_mutation_def
          changeSetParticipantCount_mutation_def)
  have closed_current:
    "fromChangeSet s p = (changeSetsOpenRemove (fst (setChangeSet_start s None)) p,
                          snd (setChangeSet_start s None))"
    if "cs_status p \<noteq> Open" "map_option cs_id (changeSet s) = Some (cs_id p)"
    using that by (simp add: fromChangeSet_def split: prod.splits)
  have closed_other:
    "fromChangeSet s p = (s\<lparr>changeSetsOpen := filter (\<lambda>c. cs_id c \<noteq> cs_id p) (changeSetsOpen s)\<rparr>, [])"
    if "cs_status p \<noteq> Open" "map_option cs_id (changeSet s) \<noteq> Some (cs_id p)"
    using that by (cases "changeSet s") (simp_all add: fromChangeSet_def changeSetsOpenRemove_def)
  show ?thesis
  proof (cases "cs_status p = Open")
    case True
    then show ?thesis
      by (simp add: open_case filter_key_unionBy_single distinct_unionBy_single
            keys_unionBy_single set_unionBy_single unionBy_single_distinct)
  next
    case False
    show ?thesis
    proof (cases "map_option cs_id (changeSet s) = Some (cs_id p)")
      case True
      with False show ?thesis
        by (simp add: closed_current start changeSetsOpenRemove_def)
    next
      case current: False
      from closed_other[OF False current] False current show ?thesis
        by auto
    qed
  qed
qed

theorem fromChangeSet_open_or_not_witness:
  "cs_status changeSetA = Open
   \<and> distinct (map cs_id (changeSetsOpen stateA))
   \<and> changeSetsOpen (fst (fromChangeSet stateA changeSetA)) = [changeSetA]
   \<and> cs_status closedA \<noteq> Open
   \<and> map_option cs_id (changeSet stateA) = Some (cs_id closedA)
   \<and> changeSetsOpen (fst (fromChangeSet stateA closedA)) = []
   \<and> changeSet (fst (fromChangeSet stateA closedA)) = None
   \<and> cs_status closedB \<noteq> Open
   \<and> map_option cs_id (changeSet stateA) \<noteq> Some (cs_id closedB)
   \<and> fromChangeSet stateA closedB = (stateA, [])"
  using fromChangeSet_open_or_not[of changeSetA stateA]
        fromChangeSet_open_or_not[of closedA stateA]
        fromChangeSet_open_or_not[of closedB stateA]
  by (simp add: fromChangeSet_def changeSetsOpenAdd_def changeSetsOpenRemove_def unionBy_def
        setChangeSet_start_def truthy_id_def changeSet_mutation_def
        changeSetParticipantCount_mutation_def stateA_def changeSetA_def closedA_def
        closedB_def editor_state_def)

text \<open>
  C6. \<open>fromNode\<close> leaves the editor state as it is, with no effect, when no application
  is selected or the payload's id is not among the ids of the successors of the
  application's node. If the state or the route changes, an application is selected and
  the payload is one of those successors.
\<close>

theorem fromNode_only_successors:
  "(application s = None
     \<or> (\<exists>app appNode successors. application s = Some app
           \<and> Entity_node backend app = Inr appNode
           \<and> Node_successors backend appNode = Inr successors
           \<and> node_id payload \<notin> node_id ` set successors)
     \<longrightarrow> fromNode backend s payload = (s, [], Inr ()))
   \<and> (fst (fromNode backend s payload) \<noteq> s \<or> fst (snd (fromNode backend s payload)) \<noteq> []
     \<longrightarrow> (\<exists>app appNode successors. application s = Some app
           \<and> Entity_node backend app = Inr appNode
           \<and> Node_successors backend appNode = Inr successors
           \<and> node_id payload \<in> node_id ` set successors))"
proof -
  have find_Some: "i \<in> node_id ` set ns" if "find_by_id ns i = Some n" for ns i n
    using that by (auto simp add: find_by_id_def find_Some_iff)
  have unchanged: "fromNode backend s payload = (s, [], Inr ())"
    if "application s = None"
    using that by (simp add: fromNode_def)
  have not_successor: "fromNode backend s payload = (s, [], Inr ())"
    if "application s = Some app" "Entity_node backend app = Inr appNode"
       "Node_successors backend appNode = Inr successors"
       "node_id payload \<notin> node_id ` set successors"
    for app appNode successors
  proof (cases "find_by_id successors (node_id payload)")
    case None
    with that show ?thesis by (simp add: fromNode_def)
  next
    case (Some n)
    with that find_Some show ?thesis by blast
  qed
  have changed: "\<exists>app appNode successors. application s = Some app
           \<and> Entity_node backend app = Inr appNode
           \<and> Node_successors backend appNode = Inr successors
           \<and> node_id payload \<in> node_id ` set successors"
    if "fromNode backend s payload \<noteq> (s, [], Inr ())
        \<and> (\<forall>e. fromNode backend s payload \<noteq> (s, [], Inl e))"
    using that find_Some
    by (auto simp add: fromNode_def split: option.splits sum.splits)
  have "fromNode backend s payload \<noteq> (s, [], Inr ())
        \<and> (\<forall>e. fromNode backend s payload \<noteq> (s, [], Inl e))"
    if "fst (fromNode backend s payload) \<noteq> s \<or> fst (snd (fromNode backend s payload)) \<noteq> []"
    using that by auto
  with unchanged not_successor changed show ?thesis
    by blast
qed

theorem fromNode_only_successors_witness:
  "application editor_state = None
   \<and> fromNode backendA editor_state nodeA = (editor_state, [], Inr ())
   \<and> application stateB = Some applicationA
   \<and> node_id nodeB \<notin> node_id ` set [nodeA]
   \<and> fromNode backendA stateB nodeB = (stateB, [], Inr ())
   \<and> nodes (fst (fromNode backendA stateB nodeA)) = [nodeA]
   \<and> fst (fromNode backendA stateB nodeA) \<noteq> stateB
   \<and> node_id nodeA \<in> node_id ` set [nodeA]"
  using fromNode_only_successors[of editor_state backendA nodeA]
        fromNode_only_successors[of stateB backendA nodeB]
        fromNode_only_successors[of stateB backendA nodeA]
  by (simp add: fromNode_def find_by_id_def updateNodes_def unionBy_def stateB_def
        editor_state_def backendA_def nodeA_def nodeB_def applicationA_def)

lemma length_insert_by: "length (insert_by before x ys) = Suc (length ys)"
  by (induction ys) auto

lemma length_fold_insert_by: "length (fold (insert_by before) xs acc) = length xs + length acc"
  by (induction xs arbitrary: acc) (auto simp add: length_insert_by)

lemma length_orderBy_desc: "length (orderBy_desc k xs) = length xs"
  by (simp add: orderBy_desc_def length_fold_insert_by)

lemma length_filter_other_keys:
  "distinct (map f xs) \<Longrightarrow> k \<in> f ` set xs
     \<Longrightarrow> Suc (length (filter (\<lambda>x. f x \<noteq> k) xs)) = length xs"
proof (induction xs)
  case Nil
  then show ?case by simp
next
  case (Cons x xs)
  show ?case
  proof (cases "f x = k")
    case True
    with Cons.prems have "\<forall>y \<in> set xs. f y \<noteq> k" by (auto simp add: image_iff)
    then have "filter (\<lambda>y. f y \<noteq> k) xs = xs" by (simp add: filter_id_conv)
    with True show ?thesis by simp
  next
    case False
    with Cons show ?thesis by auto
  qed
qed

lemma filter_absent_key: "k \<notin> f ` set xs \<Longrightarrow> filter (\<lambda>x. f x \<noteq> k) xs = xs"
  by (auto simp add: filter_id_conv)

text \<open>The three bounds after one \<open>updateEventBar\<close>, whatever the bar was before.\<close>

lemma eventBar_bounds_after_update:
  "length (eventBar (updateEventBar s event logs)) \<le> 60
   \<and> distinct (map item_id (eventBar (updateEventBar s event logs)))
   \<and> sorted_wrt (\<lambda>a b. startUnixTimestamp (item_event b) \<le> startUnixTimestamp (item_event a))
        (eventBar (updateEventBar s event logs))"
proof -
  let ?ts = "\<lambda>i. startUnixTimestamp (item_event i)"
  let ?desc = "\<lambda>a b. ?ts b \<le> ?ts a"
  let ?u = "unionBy [\<lparr>item_id = ev_id event, item_event = event,
               item_logs = orderBy_asc unixTimestamp logs, item_output = []\<rparr>] (eventBar s) item_id"
  have bar: "eventBar (updateEventBar s event logs) = take 60 (orderBy_desc ?ts ?u)"
    by (simp add: updateEventBar_def)
  have "distinct (map item_id (orderBy_desc ?ts ?u))"
    by (simp only: distinct_map_orderBy_desc distinct_unionBy_single)
  then have "distinct (map item_id (take 60 (orderBy_desc ?ts ?u)))"
    by (simp only: take_map[symmetric] distinct_take)
  moreover have "sorted_wrt ?desc (take 60 (orderBy_desc ?ts ?u))"
    by (rule sorted_wrt_take_prefix) (rule sorted_orderBy_desc)
  ultimately show ?thesis
    unfolding bar by simp
qed

lemma eventBar_bounds_after_all:
  "length (eventBar (updateEventBar_all pushed (s0\<lparr>eventBar := []\<rparr>))) \<le> 60
   \<and> distinct (map item_id (eventBar (updateEventBar_all pushed (s0\<lparr>eventBar := []\<rparr>))))
   \<and> sorted_wrt (\<lambda>a b. startUnixTimestamp (item_event b) \<le> startUnixTimestamp (item_event a))
        (eventBar (updateEventBar_all pushed (s0\<lparr>eventBar := []\<rparr>)))"
proof (cases pushed rule: rev_cases)
  case Nil
  then show ?thesis by (simp add: updateEventBar_all_def)
next
  case (snoc earlier last)
  obtain e l where "last = (e, l)" by (cases last)
  with snoc have "updateEventBar_all pushed (s0\<lparr>eventBar := []\<rparr>)
                    = updateEventBar (updateEventBar_all earlier (s0\<lparr>eventBar := []\<rparr>)) e l"
    by (simp add: updateEventBar_all_def)
  then show ?thesis by (simp only: eventBar_bounds_after_update)
qed

text \<open>An item held under the pushed event's id is the item made from the pushed event.\<close>

lemma eventBar_new_only:
  "set (filter (\<lambda>i. item_id i = ev_id event) (eventBar (updateEventBar s event logs)))
     \<subseteq> {\<lparr>item_id = ev_id event, item_event = event,
           item_logs = orderBy_asc unixTimestamp logs, item_output = []\<rparr>}"
proof
  fix i
  let ?new = "\<lparr>item_id = ev_id event, item_event = event,
               item_logs = orderBy_asc unixTimestamp logs, item_output = []\<rparr>"
  assume "i \<in> set (filter (\<lambda>i. item_id i = ev_id event) (eventBar (updateEventBar s event logs)))"
  then have i: "i \<in> set (unionBy [?new] (eventBar s) item_id)" "item_id i = ev_id event"
    by (auto simp add: updateEventBar_def set_orderBy_desc dest: in_set_takeD)
  have "item_id ?new \<notin> item_id ` set (uniq_by_seen item_id [item_id ?new] (eventBar s))"
    by (subst keys_uniq_by_seen) simp
  with i(2) have "i \<notin> set (uniq_by_seen item_id [item_id ?new] (eventBar s))"
    by (metis EventBarItem.select_convs(1) imageI)
  with i(1) show "i \<in> {?new}"
    by (simp add: unionBy_single)
qed

text \<open>
  When the ids of the bar are distinct and fewer than 60 items have another id than the
  pushed event, nothing is cut off: the bar is the new item and the items with other ids,
  in order.
\<close>

lemma eventBar_after_update:
  assumes "distinct (map item_id (eventBar s))"
    and "length (filter (\<lambda>i. item_id i \<noteq> ev_id event) (eventBar s)) < 60"
  shows "eventBar (updateEventBar s event logs)
           = orderBy_desc (\<lambda>i. startUnixTimestamp (item_event i))
               (\<lparr>item_id = ev_id event, item_event = event,
                 item_logs = orderBy_asc unixTimestamp logs, item_output = []\<rparr>
                # filter (\<lambda>i. item_id i \<noteq> ev_id event) (eventBar s))"
proof -
  let ?new = "\<lparr>item_id = ev_id event, item_event = event,
               item_logs = orderBy_asc unixTimestamp logs, item_output = []\<rparr>"
  have u: "unionBy [?new] (eventBar s) item_id
             = ?new # filter (\<lambda>i. item_id i \<noteq> ev_id event) (eventBar s)"
    using unionBy_single_distinct[OF assms(1), of ?new] by simp
  from assms(2) show ?thesis
    by (simp add: updateEventBar_def u length_orderBy_desc)
qed

lemma eventBar_replaces:
  assumes "length (eventBar s) \<le> 60" "distinct (map item_id (eventBar s))"
    "ev_id event \<in> item_id ` set (eventBar s)"
  shows "set (eventBar (updateEventBar s event logs))
           = insert \<lparr>item_id = ev_id event, item_event = event,
                     item_logs = orderBy_asc unixTimestamp logs, item_output = []\<rparr>
               (set (filter (\<lambda>i. item_id i \<noteq> ev_id event) (eventBar s)))"
    and "length (eventBar (updateEventBar s event logs)) = length (eventBar s)"
proof -
  from length_filter_other_keys[OF assms(2,3)]
  have len: "Suc (length (filter (\<lambda>i. item_id i \<noteq> ev_id event) (eventBar s))) = length (eventBar s)" .
  with assms(1) have small: "length (filter (\<lambda>i. item_id i \<noteq> ev_id event) (eventBar s)) < 60"
    by simp
  show "set (eventBar (updateEventBar s event logs))
           = insert \<lparr>item_id = ev_id event, item_event = event,
                     item_logs = orderBy_asc unixTimestamp logs, item_output = []\<rparr>
               (set (filter (\<lambda>i. item_id i \<noteq> ev_id event) (eventBar s)))"
    by (simp only: eventBar_after_update[OF assms(2) small] set_orderBy_desc list.set)
  show "length (eventBar (updateEventBar s event logs)) = length (eventBar s)"
    using len by (simp add: eventBar_after_update[OF assms(2) small] length_orderBy_desc)
qed

lemma eventBar_adds:
  assumes "length (eventBar s) < 60" "distinct (map item_id (eventBar s))"
    "ev_id event \<notin> item_id ` set (eventBar s)"
  shows "set (eventBar (updateEventBar s event logs))
           = insert \<lparr>item_id = ev_id event, item_event = event,
                     item_logs = orderBy_asc unixTimestamp logs, item_output = []\<rparr>
               (set (eventBar s))"
    and "length (eventBar (updateEventBar s event logs)) = Suc (length (eventBar s))"
proof -
  have same: "filter (\<lambda>i. item_id i \<noteq> ev_id event) (eventBar s) = eventBar s"
    using assms(3) by (rule filter_absent_key)
  with assms(1) have small: "length (filter (\<lambda>i. item_id i \<noteq> ev_id event) (eventBar s)) < 60"
    by simp
  show "set (eventBar (updateEventBar s event logs))
           = insert \<lparr>item_id = ev_id event, item_event = event,
                     item_logs = orderBy_asc unixTimestamp logs, item_output = []\<rparr>
               (set (eventBar s))"
    by (simp only: eventBar_after_update[OF assms(2) small] set_orderBy_desc list.set same)
  show "length (eventBar (updateEventBar s event logs)) = Suc (length (eventBar s))"
    by (simp add: eventBar_after_update[OF assms(2) small] length_orderBy_desc same)
qed

lemma eventBar_ids_after_update:
  assumes "length (eventBar s) < 60" "distinct (map item_id (eventBar s))"
  shows "item_id ` set (eventBar (updateEventBar s event logs))
           = insert (ev_id event) (item_id ` set (eventBar s))
       \<and> length (eventBar (updateEventBar s event logs)) \<le> Suc (length (eventBar s))
       \<and> \<lparr>item_id = ev_id event, item_event = event,
           item_logs = orderBy_asc unixTimestamp logs, item_output = []\<rparr>
            \<in> set (eventBar (updateEventBar s event logs))"
proof (cases "ev_id event \<in> item_id ` set (eventBar s)")
  case True
  from assms(1) have le: "length (eventBar s) \<le> 60" by simp
  from eventBar_replaces[OF le assms(2) True, of logs] True show ?thesis
    by auto
next
  case False
  from eventBar_adds[OF assms False, of logs] show ?thesis
    by auto
qed

text \<open>
  Along a run of at most 60 pushes from an empty bar nothing is ever cut off: the bar
  holds an item for every pushed id, and the item made from the last push.
\<close>

lemma eventBar_ids_after_all:
  "length pushed \<le> 60 \<Longrightarrow>
     item_id ` set (eventBar (updateEventBar_all pushed (s0\<lparr>eventBar := []\<rparr>)))
       = (\<lambda>p. ev_id (fst p)) ` set pushed
   \<and> length (eventBar (updateEventBar_all pushed (s0\<lparr>eventBar := []\<rparr>))) \<le> length pushed"
proof (induction pushed rule: rev_induct)
  case Nil
  then show ?case by (simp add: updateEventBar_all_def)
next
  case (snoc p earlier)
  obtain e l where p: "p = (e, l)" by (cases p)
  let ?before = "updateEventBar_all earlier (s0\<lparr>eventBar := []\<rparr>)"
  have run: "updateEventBar_all (earlier @ [p]) (s0\<lparr>eventBar := []\<rparr>) = updateEventBar ?before e l"
    by (simp add: updateEventBar_all_def p)
  from snoc have ih: "item_id ` set (eventBar ?before) = (\<lambda>p. ev_id (fst p)) ` set earlier"
    "length (eventBar ?before) \<le> length earlier" "length earlier < 60"
    by simp_all
  then have small: "length (eventBar ?before) < 60" by simp
  have d: "distinct (map item_id (eventBar ?before))"
    using eventBar_bounds_after_all[of earlier s0] by simp
  from eventBar_ids_after_update[OF small d, of e l] ih show ?case
    unfolding run by (auto simp add: p)
qed

lemma eventBar_last_after_all:
  assumes "length (earlier @ [(event, logs)]) \<le> 60"
  shows "\<lparr>item_id = ev_id event, item_event = event,
          item_logs = orderBy_asc unixTimestamp logs, item_output = []\<rparr>
           \<in> set (eventBar (updateEventBar_all (earlier @ [(event, logs)]) (s0\<lparr>eventBar := []\<rparr>)))"
proof -
  let ?before = "updateEventBar_all earlier (s0\<lparr>eventBar := []\<rparr>)"
  have run: "updateEventBar_all (earlier @ [(event, logs)]) (s0\<lparr>eventBar := []\<rparr>)
               = updateEventBar ?before event logs"
    by (simp add: updateEventBar_all_def)
  from assms have "length earlier \<le> 60" "length earlier < 60" by simp_all
  with eventBar_ids_after_all[of earlier s0] have small: "length (eventBar ?before) < 60"
    by simp
  have d: "distinct (map item_id (eventBar ?before))"
    using eventBar_bounds_after_all[of earlier s0] by simp
  from eventBar_ids_after_update[OF small d, of event logs] show ?thesis
    unfolding run by simp
qed

text \<open>
  C8. After \<open>updateEventBar\<close> the event bar has at most 60 items, no two items with the
  same id, and is ordered by \<open>event.startUnixTimestamp\<close>, latest first; an item it holds
  under the pushed event's id is the item made from the pushed event, never an older one.
  On a bar of at most 60 items with distinct ids that holds the pushed id, the new item
  replaces the old one: the bar afterwards is the new item and the items with other ids,
  as many as before. On such a bar of fewer than 60 items without the pushed id the new
  item is added. The three bounds hold after any sequence of \<open>updateEventBar\<close> from a
  state whose event bar is empty; while the sequence has at most 60 pushes the bar holds
  exactly the pushed ids, and the item made from the last push.
\<close>

theorem updateEventBar_invariant:
  "length (eventBar (updateEventBar s event logs)) \<le> 60
   \<and> distinct (map item_id (eventBar (updateEventBar s event logs)))
   \<and> sorted_wrt (\<lambda>a b. startUnixTimestamp (item_event b) \<le> startUnixTimestamp (item_event a))
        (eventBar (updateEventBar s event logs))
   \<and> set (filter (\<lambda>i. item_id i = ev_id event) (eventBar (updateEventBar s event logs)))
        \<subseteq> {\<lparr>item_id = ev_id event, item_event = event,
             item_logs = orderBy_asc unixTimestamp logs, item_output = []\<rparr>}
   \<and> length (eventBar (updateEventBar_all pushed (s0\<lparr>eventBar := []\<rparr>))) \<le> 60
   \<and> distinct (map item_id (eventBar (updateEventBar_all pushed (s0\<lparr>eventBar := []\<rparr>))))
   \<and> sorted_wrt (\<lambda>a b. startUnixTimestamp (item_event b) \<le> startUnixTimestamp (item_event a))
        (eventBar (updateEventBar_all pushed (s0\<lparr>eventBar := []\<rparr>)))
   \<and> (length (eventBar s) \<le> 60 \<and> distinct (map item_id (eventBar s))
        \<and> ev_id event \<in> item_id ` set (eventBar s)
      \<longrightarrow> set (eventBar (updateEventBar s event logs))
            = insert \<lparr>item_id = ev_id event, item_event = event,
                      item_logs = orderBy_asc unixTimestamp logs, item_output = []\<rparr>
                (set (filter (\<lambda>i. item_id i \<noteq> ev_id event) (eventBar s)))
        \<and> length (eventBar (updateEventBar s event logs)) = length (eventBar s))
   \<and> (length (eventBar s) < 60 \<and> distinct (map item_id (eventBar s))
        \<and> ev_id event \<notin> item_id ` set (eventBar s)
      \<longrightarrow> set (eventBar (updateEventBar s event logs))
            = insert \<lparr>item_id = ev_id event, item_event = event,
                      item_logs = orderBy_asc unixTimestamp logs, item_output = []\<rparr>
                (set (eventBar s))
        \<and> length (eventBar (updateEventBar s event logs)) = Suc (length (eventBar s)))
   \<and> (length pushed \<le> 60
      \<longrightarrow> item_id ` set (eventBar (updateEventBar_all pushed (s0\<lparr>eventBar := []\<rparr>)))
            = (\<lambda>p. ev_id (fst p)) ` set pushed)
   \<and> (length (earlier @ [(event, logs)]) \<le> 60
      \<longrightarrow> \<lparr>item_id = ev_id event, item_event = event,
            item_logs = orderBy_asc unixTimestamp logs, item_output = []\<rparr>
             \<in> set (eventBar (updateEventBar_all (earlier @ [(event, logs)])
                                (s0\<lparr>eventBar := []\<rparr>))))"
  using eventBar_bounds_after_update[of s event logs] eventBar_new_only[of event s logs]
    eventBar_bounds_after_all[of pushed s0] eventBar_replaces[of s event logs]
    eventBar_adds[of s event logs] eventBar_ids_after_all[of pushed s0]
    eventBar_last_after_all[of earlier event logs s0]
  by blast

theorem updateEventBar_invariant_witness:
  "length (eventBar stateE) \<le> 60
   \<and> distinct (map item_id (eventBar stateE))
   \<and> ev_id eventA_again \<in> item_id ` set (eventBar stateE)
   \<and> eventBar (updateEventBar stateE eventA_again [])
       = [\<lparr>item_id = ''e1'', item_event = eventA_again, item_logs = [], item_output = []\<rparr>,
          \<lparr>item_id = ''e2'', item_event = eventB, item_logs = [], item_output = []\<rparr>]
   \<and> ev_id eventC \<notin> item_id ` set (eventBar stateE)
   \<and> eventBar (updateEventBar stateE eventC [])
       = [\<lparr>item_id = ''e2'', item_event = eventB, item_logs = [], item_output = []\<rparr>,
          \<lparr>item_id = ''e3'', item_event = eventC, item_logs = [], item_output = []\<rparr>,
          \<lparr>item_id = ''e1'', item_event = eventA, item_logs = [], item_output = []\<rparr>]
   \<and> length [(eventA, []), (eventB, []), (eventA_again, [])] \<le> (60::nat)
   \<and> eventBar (updateEventBar_all [(eventA, []), (eventB, []), (eventA_again, [])]
                 (editor_state\<lparr>eventBar := []\<rparr>))
       = [\<lparr>item_id = ''e1'', item_event = eventA_again, item_logs = [], item_output = []\<rparr>,
          \<lparr>item_id = ''e2'', item_event = eventB, item_logs = [], item_output = []\<rparr>]"
  using updateEventBar_invariant
          [of stateE eventA_again "[]" "[(eventA, []), (eventB, []), (eventA_again, [])]"
              editor_state "[(eventA, []), (eventB, [])]"]
        updateEventBar_invariant
          [of stateE eventC "[]" "[(eventA, []), (eventB, []), (eventA_again, [])]"
              editor_state "[(eventA, []), (eventB, [])]"]
  by (simp add: updateEventBar_all_def updateEventBar_def unionBy_def orderBy_desc_def
        orderBy_asc_def editor_state_def stateE_def eventA_def eventB_def eventA_again_def
        eventC_def)

lemma updateEventBar_all_example:
  "map item_event
     (eventBar (updateEventBar_all [(eventA, []), (eventB, []), (eventA_again, [])] editor_state))
   = [eventA_again, eventB]"
  by (simp add: updateEventBar_all_def updateEventBar_def unionBy_def orderBy_desc_def
        orderBy_asc_def editor_state_def eventA_def eventB_def eventA_again_def)

section \<open>The create procedure of external_providers\<close>

text \<open>
  C7. When both conversions succeed, the tenancy record's \<open>tenancy_universal\<close> is not
  NULL, both sequences have a value left, the new \<open>pk\<close> is not in the table yet and the
  constraints of the table accept the row, \<open>external_provider_create_v1\<close> appends exactly
  the row built from its arguments to \<open>external_providers\<close> and returns that row as
  json. When it raises an error, no row is added to or changed in either table. Whenever
  it returns, those conditions held and it has appended exactly one row, whose tenancy
  and visibility columns are the converted json and whose \<open>prop_id\<close>, \<open>schema_id\<close>,
  \<open>schema_variant_id\<close>, \<open>name\<close>, \<open>type_definition\<close> and \<open>attribute_prototype_id\<close> are the
  arguments; the object returned is that row as json, and nothing else in the tables has
  changed.
\<close>

theorem external_provider_create_v1_inserts_one_row:
  "(tenancy_json_to_columns_v1 env this_tenancy = Inr t
      \<and> visibility_json_to_columns_v1 env this_visibility = Inr v
      \<and> tenancy_universal t = Some universal
      \<and> external_providers_pk_seq db < bigint_max
      \<and> external_providers_id_seq db < bigint_max
      \<and> external_providers_pk_seq db + 1 \<notin> col_pk ` set (external_providers db)
      \<and> standard_model_table_constraints_v1 env (external_providers db)
           (inserted_row (external_providers_pk_seq db + 1) (external_providers_id_seq db + 1)
              (NOW env) universal t v this_prop_id this_schema_id this_schema_variant_id
              this_name this_type_definition this_attribute_prototype_id)
    \<longrightarrow> external_provider_create_v1 env this_tenancy this_visibility this_prop_id
          this_schema_id this_schema_variant_id this_name this_type_definition
          this_attribute_prototype_id db
        = Inr (row_to_json
                 (inserted_row (external_providers_pk_seq db + 1)
                    (external_providers_id_seq db + 1) (NOW env) universal t v this_prop_id
                    this_schema_id this_schema_variant_id this_name this_type_definition
                    this_attribute_prototype_id),
               db\<lparr>external_providers_pk_seq := external_providers_pk_seq db + 1,
                  external_providers_id_seq := external_providers_id_seq db + 1,
                  external_providers :=
                    external_providers db
                      @ [inserted_row (external_providers_pk_seq db + 1)
                           (external_providers_id_seq db + 1) (NOW env) universal t v
                           this_prop_id this_schema_id this_schema_variant_id this_name
                           this_type_definition this_attribute_prototype_id]\<rparr>))
   \<and> (\<forall>e db'. external_provider_create_v1 env this_tenancy this_visibility this_prop_id
          this_schema_id this_schema_variant_id this_name this_type_definition
          this_attribute_prototype_id db = Inl (e, db')
        \<longrightarrow> external_providers db' = external_providers db
          \<and> standard_models db' = standard_models db)
   \<and> (\<forall>object db'. external_provider_create_v1 env this_tenancy this_visibility this_prop_id
          this_schema_id this_schema_variant_id this_name this_type_definition
          this_attribute_prototype_id db = Inr (object, db')
        \<longrightarrow> (\<exists>r. external_providers db' = external_providers db @ [r]
              \<and> standard_models db' = standard_models db
              \<and> object = row_to_json r
              \<and> tenancy_json_to_columns_v1 env this_tenancy
                   = Inr \<lparr>tenancy_universal = Some (col_tenancy_universal r),
                          tenancy_billing_account_ids = col_tenancy_billing_account_ids r,
                          tenancy_organization_ids = col_tenancy_organization_ids r,
                          tenancy_workspace_ids = col_tenancy_workspace_ids r\<rparr>
              \<and> visibility_json_to_columns_v1 env this_visibility
                   = Inr \<lparr>visibility_change_set_pk = col_visibility_change_set_pk r,
                          visibility_edit_session_pk = col_visibility_edit_session_pk r,
                          visibility_deleted_at = col_visibility_deleted_at r\<rparr>
              \<and> col_prop_id r = this_prop_id
              \<and> col_schema_id r = this_schema_id
              \<and> col_schema_variant_id r = this_schema_variant_id
              \<and> col_name r = this_name
              \<and> col_type_definition r = this_type_definition
              \<and> col_attribute_prototype_id r = this_attribute_prototype_id
              \<and> external_providers_pk_seq db < bigint_max
              \<and> external_providers_id_seq db < bigint_max
              \<and> col_pk r = external_providers_pk_seq db + 1
              \<and> col_id r = external_providers_id_seq db + 1
              \<and> col_pk r \<notin> col_pk ` set (external_providers db)
              \<and> standard_model_table_constraints_v1 env (external_providers db) r))"
proof -
  let ?call = "external_provider_create_v1 env this_tenancy this_visibility this_prop_id
          this_schema_id this_schema_variant_id this_name this_type_definition
          this_attribute_prototype_id db"
  have success: "?call = Inr (row_to_json
                 (inserted_row (external_providers_pk_seq db + 1)
                    (external_providers_id_seq db + 1) (NOW env) universal t v this_prop_id
                    this_schema_id this_schema_variant_id this_name this_type_definition
                    this_attribute_prototype_id),
               db\<lparr>external_providers_pk_seq := external_providers_pk_seq db + 1,
                  external_providers_id_seq := external_providers_id_seq db + 1,
                  external_providers :=
                    external_providers db
                      @ [inserted_row (external_providers_pk_seq db + 1)
                           (external_providers_id_seq db + 1) (NOW env) universal t v
                           this_prop_id this_schema_id this_schema_variant_id this_name
                           this_type_definition this_attribute_prototype_id]\<rparr>)"
    if "tenancy_json_to_columns_v1 env this_tenancy = Inr t"
       "visibility_json_to_columns_v1 env this_visibility = Inr v"
       "tenancy_universal t = Some universal"
       "external_providers_pk_seq db < bigint_max"
       "external_providers_id_seq db < bigint_max"
       "external_providers_pk_seq db + 1 \<notin> col_pk ` set (external_providers db)"
       "standard_model_table_constraints_v1 env (external_providers db)
           (inserted_row (external_providers_pk_seq db + 1) (external_providers_id_seq db + 1)
              (NOW env) universal t v this_prop_id this_schema_id this_schema_variant_id
              this_name this_type_definition this_attribute_prototype_id)"
    using that by (simp add: external_provider_create_v1_def nextval_def Let_def)
  have failure: "external_providers db' = external_providers db
                 \<and> standard_models db' = standard_models db"
    if "?call = Inl (e, db')" for e db'
    using that
    by (auto simp add: external_provider_create_v1_def nextval_def Let_def
          split: sum.splits option.splits if_splits)
  have returned: "\<exists>r. external_providers db' = external_providers db @ [r]
              \<and> standard_models db' = standard_models db
              \<and> object = row_to_json r
              \<and> tenancy_json_to_columns_v1 env this_tenancy
                   = Inr \<lparr>tenancy_universal = Some (col_tenancy_universal r),
                          tenancy_billing_account_ids = col_tenancy_billing_account_ids r,
                          tenancy_organization_ids = col_tenancy_organization_ids r,
                          tenancy_workspace_ids = col_tenancy_workspace_ids r\<rparr>
              \<and> visibility_json_to_columns_v1 env this_visibility
                   = Inr \<lparr>visibility_change_set_pk = col_visibility_change_set_pk r,
                          visibility_edit_session_pk = col_visibility_edit_session_pk r,
                          visibility_deleted_at = col_visibility_deleted_at r\<rparr>
              \<and> col_prop_id r = this_prop_id
              \<and> col_schema_id r = this_schema_id
              \<and> col_schema_variant_id r = this_schema_variant_id
              \<and> col_name r = this_name
              \<and> col_type_definition r = this_type_definition
              \<and> col_attribute_prototype_id r = this_attribute_prototype_id
              \<and> external_providers_pk_seq db < bigint_max
              \<and> external_providers_id_seq db < bigint_max
              \<and> col_pk r = external_providers_pk_seq db + 1
              \<and> col_id r = external_providers_id_seq db + 1
              \<and> col_pk r \<notin> col_pk ` set (external_providers db)
              \<and> standard_model_table_constraints_v1 env (external_providers db) r"
    if "?call = Inr (object, db')" for object db'
    using that
    by (auto simp add: external_provider_create_v1_def nextval_def Let_def inserted_row_def
          split: sum.splits option.splits if_splits)
  from success failure returned show ?thesis
    by blast
qed

theorem external_provider_create_v1_inserts_one_row_witness:
  "tenancy_json_to_columns_v1 envA tenancyA
     = Inr \<lparr>tenancy_universal = Some True, tenancy_billing_account_ids = None,
            tenancy_organization_ids = None, tenancy_workspace_ids = None\<rparr>
   \<and> visibility_json_to_columns_v1 envA visibilityA
     = Inr \<lparr>visibility_change_set_pk = Some 5, visibility_edit_session_pk = None,
            visibility_deleted_at = None\<rparr>
   \<and> external_providers_pk_seq dbA < bigint_max
   \<and> external_providers_id_seq dbA < bigint_max
   \<and> external_providers_pk_seq dbA + 1 \<notin> col_pk ` set (external_providers dbA)
   \<and> external_provider_create_v1 envA tenancyA visibilityA (Some 8) (Some 1) (Some 1)
        (Some ''port'') (Some ''string'') None dbA
      = Inr (row_to_json
               (inserted_row 2 2 ''2022-11-01 12:00:00+00'' True
                  \<lparr>tenancy_universal = Some True, tenancy_billing_account_ids = None,
                   tenancy_organization_ids = None, tenancy_workspace_ids = None\<rparr>
                  \<lparr>visibility_change_set_pk = Some 5, visibility_edit_session_pk = None,
                   visibility_deleted_at = None\<rparr>
                  (Some 8) (Some 1) (Some 1) (Some ''port'') (Some ''string'') None),
             dbA\<lparr>external_providers_pk_seq := 2, external_providers_id_seq := 2,
                 external_providers :=
                   [rowA,
                    inserted_row 2 2 ''2022-11-01 12:00:00+00'' True
                      \<lparr>tenancy_universal = Some True, tenancy_billing_account_ids = None,
                       tenancy_organization_ids = None, tenancy_workspace_ids = None\<rparr>
                      \<lparr>visibility_change_set_pk = Some 5, visibility_edit_session_pk = None,
                       visibility_deleted_at = None\<rparr>
                      (Some 8) (Some 1) (Some 1) (Some ''port'') (Some ''string'') None]\<rparr>)"
  using external_provider_create_v1_inserts_one_row
          [of envA tenancyA
              "\<lparr>tenancy_universal = Some True, tenancy_billing_account_ids = None,
                tenancy_organization_ids = None, tenancy_workspace_ids = None\<rparr>"
              visibilityA
              "\<lparr>visibility_change_set_pk = Some 5, visibility_edit_session_pk = None,
                visibility_deleted_at = None\<rparr>"
              True dbA "Some 8" "Some 1" "Some 1" "Some ''port''" "Some ''string''" None]
  by (simp add: envA_def tenancyA_def visibilityA_def dbA_def rowA_def bigint_max_def
        json_member_bool_def json_member_bigint_def)

text \<open>
  With the tenancy json \<open>{}\<close> the sample conversion gives a record whose
  \<open>tenancy_universal\<close> is NULL; the column is \<open>NOT NULL\<close>, so the call raises an error,
  returns nothing and adds no row (the sequences have moved on).
\<close>

theorem external_provider_create_v1_null_tenancy:
  "external_provider_create_v1 envA (Some (JsonObject [])) visibilityA (Some 8) (Some 1)
      (Some 1) (Some ''port'') (Some ''string'') None dbA
     = Inl (not_null_violation ''tenancy_universal'',
            dbA\<lparr>external_providers_pk_seq := 2, external_providers_id_seq := 2\<rparr>)
   \<and> external_providers (dbA\<lparr>external_providers_pk_seq := 2, external_providers_id_seq := 2\<rparr>)
       = external_providers dbA"
  by (simp add: external_provider_create_v1_def nextval_def bigint_max_def envA_def
        visibilityA_def dbA_def json_member_bool_def json_member_bigint_def)

end
